theory Spec2Isabelle
  imports Complex_Main
begin

text \<open>
  The RLIIM kiosk bridge: the import of the lot spreadsheet into the staging table
  \<open>rliim_cm_import\<close> (\<open>rliimcmimport.py\<close>) and the merge of staging into the production
  tables \<open>collected_material\<close> and \<open>small_find\<close> (\<open>rliim2kioskimport.py\<close>), as functions
  on explicit values: cells, rows, the staging table, the log and the database.
\<close>

section \<open>Python values and string operations used by the importer\<close>

text \<open>
  A Python string is modelled as a \<^typ>\<open>string\<close>: one \<^typ>\<open>char\<close> per code point, for the
  code points below 256. Every character class below is the restriction of Python's
  class to that range.
\<close>

definition is_space :: "char \<Rightarrow> bool" where
  \<comment> \<open>\<open>str.isspace\<close> / the \<open>\s\<close> of \<open>re\<close>: TAB..CR, FS..US, blank, NEL, NBSP\<close>
  "is_space c =
     (let n = (of_char c :: nat)
      in (9 \<le> n \<and> n \<le> 13) \<or> (28 \<le> n \<and> n \<le> 31) \<or> n = 32 \<or> n = 133 \<or> n = 160)"

definition is_digit :: "char \<Rightarrow> bool" where
  \<comment> \<open>the \<open>\d\<close> of \<open>re\<close>, and the digits \<open>int()\<close> accepts\<close>
  "is_digit c = (let n = (of_char c :: nat) in 48 \<le> n \<and> n \<le> 57)"

definition digit_val :: "char \<Rightarrow> nat" where
  "digit_val c = (of_char c :: nat) - 48"

definition strip :: "string \<Rightarrow> string" where
  \<comment> \<open>\<open>s.strip()\<close>\<close>
  "strip s = rev (dropWhile is_space (rev (dropWhile is_space s)))"

definition lower_char :: "char \<Rightarrow> char" where
  "lower_char c =
     (let n = (of_char c :: nat)
      in if (65 \<le> n \<and> n \<le> 90) \<or> (192 \<le> n \<and> n \<le> 222 \<and> n \<noteq> 215)
         then char_of (n + 32) else c)"

definition lower :: "string \<Rightarrow> string" where
  \<comment> \<open>\<open>s.lower()\<close>\<close>
  "lower s = map lower_char s"

fun starts_with :: "string \<Rightarrow> string \<Rightarrow> bool" where
  "starts_with [] s = True"
| "starts_with (p # ps) [] = False"
| "starts_with (p # ps) (c # cs) = (p = c \<and> starts_with ps cs)"

fun contains :: "string \<Rightarrow> string \<Rightarrow> bool" where
  \<comment> \<open>\<open>sub in s\<close>\<close>
  "contains sub [] = (sub = [])"
| "contains sub (c # cs) = (starts_with sub (c # cs) \<or> contains sub cs)"

fun split_on :: "char \<Rightarrow> string \<Rightarrow> string list" where
  \<comment> \<open>\<open>s.split(sep)\<close> for a separator of one character\<close>
  "split_on sep [] = [[]]"
| "split_on sep (c # cs) =
     (if c = sep then [] # split_on sep cs
      else (case split_on sep cs of
              [] \<Rightarrow> [[c]]
            | p # ps \<Rightarrow> (c # p) # ps))"

definition replace_char :: "char \<Rightarrow> char \<Rightarrow> string \<Rightarrow> string" where
  \<comment> \<open>\<open>s.replace(a, b)\<close> for two strings of one character\<close>
  "replace_char a b s = map (\<lambda>c. if c = a then b else c) s"

fun py_digits :: "nat \<Rightarrow> string \<Rightarrow> nat option" where
  \<comment> \<open>decimal digits, a single underscore allowed between two digits\<close>
  "py_digits acc [] = Some acc"
| "py_digits acc [c] = (if is_digit c then Some (acc * 10 + digit_val c) else None)"
| "py_digits acc (c # d # cs) =
     (if is_digit c then py_digits (acc * 10 + digit_val c) (d # cs)
      else if c = CHR ''_'' \<and> is_digit d then py_digits acc (d # cs)
      else None)"

definition parse_digits :: "string \<Rightarrow> nat option" where
  "parse_digits s =
     (case s of [] \<Rightarrow> None
      | c # cs \<Rightarrow> if is_digit c then py_digits 0 s else None)"

definition py_int_str :: "string \<Rightarrow> int option" where
  \<comment> \<open>\<open>int(s)\<close> for a string; \<open>None\<close> is the ValueError\<close>
  "py_int_str s =
     (case strip s of
        [] \<Rightarrow> None
      | c # cs \<Rightarrow>
          if c = CHR ''-'' then map_option (\<lambda>n. - int n) (parse_digits cs)
          else if c = CHR ''+'' then map_option int (parse_digits cs)
          else map_option int (parse_digits (c # cs)))"

definition digit_char :: "nat \<Rightarrow> char" where
  "digit_char n = char_of (48 + n)"

function str_nat :: "nat \<Rightarrow> string" where
  "str_nat n = (if n < 10 then [digit_char n] else str_nat (n div 10) @ [digit_char (n mod 10)])"
  by pat_completeness auto
termination
  by (relation "measure (\<lambda>n. n)") auto

declare str_nat.simps [simp del]

definition str_int :: "int \<Rightarrow> string" where
  \<comment> \<open>\<open>str(i)\<close> for an int, as an f-string formats it\<close>
  "str_int i = (if i < 0 then CHR ''-'' # str_nat (nat (- i)) else str_nat (nat i))"

text \<open>
  The value of a spreadsheet cell as openpyxl returns it. A float is modelled by the
  rational it denotes, a datetime by an abstract time stamp.
\<close>

datatype cell =
    CNone
  | CBool bool
  | CInt int
  | CFloat rat
  | CStr string
  | CDateTime nat

type_synonym row = "cell list"

datatype pyexn =
    IndexError | AttributeError | TypeError | ValueError | KeyError
  | UndefinedFunction \<comment> \<open>the database error for an operator that does not exist\<close>

fun truthy :: "cell \<Rightarrow> bool" where
  \<comment> \<open>\<open>bool(v)\<close>\<close>
  "truthy CNone = False"
| "truthy (CBool b) = b"
| "truthy (CInt i) = (i \<noteq> 0)"
| "truthy (CFloat r) = (r \<noteq> 0)"
| "truthy (CStr s) = (s \<noteq> [])"
| "truthy (CDateTime d) = True"

fun py_int :: "cell \<Rightarrow> int option" where
  \<comment> \<open>\<open>int(v)\<close>; \<open>None\<close> is the TypeError or ValueError\<close>
  "py_int CNone = None"
| "py_int (CBool b) = Some (if b then 1 else 0)"
| "py_int (CInt i) = Some i"
| "py_int (CFloat r) = Some (if 0 \<le> r then \<lfloor>r\<rfloor> else \<lceil>r\<rceil>)"
| "py_int (CStr s) = py_int_str s"
| "py_int (CDateTime d) = None"

fun first_cell_empty :: "cell \<Rightarrow> bool" where
  \<comment> \<open>\<open>not v or not str(v).strip()\<close>: the text of a truthy value that is not a string is never blank\<close>
  "first_cell_empty (CStr s) = (s = [] \<or> strip s = [])"
| "first_cell_empty v = (\<not> truthy v)"

definition get_or :: "row \<Rightarrow> nat \<Rightarrow> cell" where
  \<comment> \<open>the local \<open>get_or(index, None)\<close> of the three row loops\<close>
  "get_or row index' = (if index' < length row \<and> truthy (row ! index') then row ! index' else CNone)"

section \<open>The log\<close>

text \<open>
  A log record is the severity, the message template of the \<open>log\<close> call and the values
  formatted into it.
\<close>

type_synonym log_entry = "int \<times> string \<times> cell list"

definition SEPARATOR :: int where "SEPARATOR = - 2"
definition INFO :: int where "INFO = - 1"
definition SUCCESS :: int where "SUCCESS = 0"
definition WARNING :: int where "WARNING = 1"
definition ERROR :: int where "ERROR = 2"

definition file_log_level :: int where "file_log_level = INFO"

definition log :: "string \<Rightarrow> cell list \<Rightarrow> int \<Rightarrow> log_entry list" where
  \<comment> \<open>the records one \<open>log(msg, error_state)\<close> call appends to \<open>log_records\<close>; a
      separator is an empty record and the message\<close>
  "log msg args error_state =
     (if error_state = SEPARATOR then [(SEPARATOR, [], []), (SEPARATOR, msg, args)]
      else if error_state \<ge> file_log_level then [(error_state, msg, args)]
      else [])"

section \<open>The staging relation\<close>

text \<open>
  A row of \<open>rliim_cm_import\<close>. A column for which the importer passes whatever the cell
  holds keeps that value as a \<^typ>\<open>cell\<close>, with \<open>CNone\<close> for SQL null; \<open>lot\<close> holds the text
  of the lot number (the Lots pass inserts an int, which the VARCHAR column stores as
  its decimal text); \<open>lot_type\<close> is the column \<open>type\<close>.
\<close>

record staging =
  line_ref :: nat
  cm_type :: string
  lot :: string
  locus :: string
  unit :: string
  arch_domain :: "string option"
  arch_context :: string
  local_nr :: int
  lot_type :: cell
  date_excavated :: "nat option"
  date_entered :: "nat option"
  photographed :: bool
  description :: cell
  count :: cell
  location :: cell
  sf_type :: cell
  sf_measures :: "string option"
  sf_length_mm :: "string option"
  sf_height_mm :: "string option"
  sf_width_mm :: "string option"
  sf_thickness_mm :: "string option"
  sf_diameter_mm :: "string option"
  sf_diameter_perf_mm :: "string option"
  sf_weight :: "int option"
  sf_description :: cell
  sf_date_excavated :: "nat option"
  sf_date_entered :: "nat option"
  sf_photographed :: "bool option"


text \<open>The parameter list of the UPDATE statement of \<open>import_artifacts_rows\<close>.\<close>

record artifact_params =
  p_line_ref :: nat
  p_cm_type :: string
  p_sf_type :: cell
  p_sf_measures :: "string option"
  p_sf_length_mm :: "string option"
  p_sf_height_mm :: "string option"
  p_sf_width_mm :: "string option"
  p_sf_thickness_mm :: "string option"
  p_sf_diameter_mm :: "string option"
  p_sf_diameter_perf_mm :: "string option"
  p_sf_weight :: "int option"
  p_sf_description :: cell
  p_sf_date_excavated :: "nat option"
  p_sf_date_entered :: "nat option"
  p_sf_photographed :: bool
  p_lot :: string

section \<open>External collaborators\<close>

text \<open>
  What the importer calls and this repository does not define: the helper
  \<open>kioskstdlib.force_positive_int_from_string\<close>, Python's text of a float and of a
  datetime, and the database's answer to an insert or update beyond the primary-key
  check (any other database error).
\<close>

record env =
  force_positive_int_from_string :: "string \<Rightarrow> int"
  str_float :: "rat \<Rightarrow> string"
  str_datetime :: "nat \<Rightarrow> string"
  insert_error :: "staging \<Rightarrow> bool"
  update_error :: "artifact_params \<Rightarrow> bool"

fun py_str :: "env \<Rightarrow> cell \<Rightarrow> string" where
  \<comment> \<open>\<open>str(v)\<close>, as an f-string formats a value\<close>
  "py_str e CNone = ''None''"
| "py_str e (CBool b) = (if b then ''True'' else ''False'')"
| "py_str e (CInt i) = str_int i"
| "py_str e (CFloat r) = str_float e r"
| "py_str e (CStr s) = s"
| "py_str e (CDateTime d) = str_datetime e d"

section \<open>Row normalizers\<close>

text \<open>
  What one pass of a row loop does with its row: \<open>Done\<close> is the \<open>break\<close>,
  \<open>Skipped\<close> the \<open>continue\<close>, \<open>Raised\<close> an exception no handler of the loop catches,
  \<open>Accepted\<close> the values the pass goes on with. Each function returns the log records
  written on the way as well.
\<close>

datatype 'a row_result = Done | Skipped | Raised pyexn | Accepted 'a

definition then_row ::
  "log_entry list \<times> 'a row_result \<Rightarrow> ('a \<Rightarrow> log_entry list \<times> 'b row_result)
     \<Rightarrow> log_entry list \<times> 'b row_result" where
  "then_row m f =
     (case m of
        (l, Accepted x) \<Rightarrow> (case f x of (l', r) \<Rightarrow> (l @ l', r))
      | (l, Done) \<Rightarrow> (l, Done)
      | (l, Skipped) \<Rightarrow> (l, Skipped)
      | (l, Raised ex) \<Rightarrow> (l, Raised ex))"

definition re_context :: "string \<Rightarrow> bool" where
  \<comment> \<open>\<open>re.search(r"^[A|B|C|D]\d\d\d$", s)\<close>; \<open>$\<close> also matches before a final newline\<close>
  "re_context s =
     (let t = (if s \<noteq> [] \<and> last s = CHR 0x0A then butlast s else s)
      in length t = 4 \<and> hd t \<in> set ''A|BCD'' \<and> list_all is_digit (tl t))"

definition re_trench :: "string \<Rightarrow> bool" where
  \<comment> \<open>\<open>re.search(r"^[A|B|C|D]$", s)\<close>\<close>
  "re_trench s =
     (let t = (if s \<noteq> [] \<and> last s = CHR 0x0A then butlast s else s)
      in length t = 1 \<and> hd t \<in> set ''A|BCD'')"

definition read_lot_number :: "nat \<Rightarrow> row \<Rightarrow> log_entry list \<times> int row_result" where
  \<comment> \<open>\<open>import_lot_rows\<close> and \<open>import_artifacts_rows\<close>: the empty first cell and \<open>int(row[0].value)\<close>\<close>
  "read_lot_number row_nr row =
     (case row of
        [] \<Rightarrow> ([], Raised IndexError)
      | v # _ \<Rightarrow>
          if first_cell_empty v then ([], Done)
          else (case py_int v of
                  None \<Rightarrow>
                    (log ''Line {row_nr}: invalid Lot Number {row[0].value}. Line skipped.''
                       [CInt (int row_nr), v] WARNING, Skipped)
                | Some lot_nr \<Rightarrow>
                    if lot_nr \<le> 0
                    then (log ''Line {row_nr}: invalid Lot Number {row[0].value}. Line skipped.''
                            [CInt (int row_nr), v] WARNING, Skipped)
                    else ([], Accepted lot_nr)))"

definition read_sample_number :: "nat \<Rightarrow> row \<Rightarrow> log_entry list \<times> (string \<times> int) row_result" where
  \<comment> \<open>\<open>import_sample_rows\<close>: the empty first cell and \<open>int(lot_nr[1:])\<close>\<close>
  "read_sample_number row_nr row =
     (case row of
        [] \<Rightarrow> ([], Raised IndexError)
      | v # _ \<Rightarrow>
          if first_cell_empty v then ([], Done)
          else (case (case v of CStr s \<Rightarrow> py_int_str (drop 1 s) | _ \<Rightarrow> None) of
                  None \<Rightarrow>
                    (log ''Line {row_nr}: invalid Lot Number {row[0].value}. Line skipped.''
                       [CInt (int row_nr), v] WARNING, Skipped)
                | Some local_nr' \<Rightarrow>
                    if local_nr' \<le> 0
                    then (log ''Line {row_nr}: invalid Lot Number {row[0].value}. Line skipped.''
                            [CInt (int row_nr), v] WARNING, Skipped)
                    else (case v of CStr s \<Rightarrow> ([], Accepted (s, local_nr'))
                          | _ \<Rightarrow> ([], Raised TypeError))))"

definition check_context_trench ::
  "nat \<Rightarrow> cell \<Rightarrow> row \<Rightarrow> log_entry list \<times> (string \<times> string) row_result" where
  \<comment> \<open>the context and trench checks, the same statements in all three row loops\<close>
  "check_context_trench row_nr lot_nr row =
     (case (if 1 < length row then (case row ! 1 of CStr s \<Rightarrow> Some (strip s) | _ \<Rightarrow> None)
            else None) of
        None \<Rightarrow>
          (log ''Line {row_nr}, lot# {lot_nr}: no context. Line skipped.''
             [CInt (int row_nr), lot_nr] WARNING, Skipped)
      | Some context \<Rightarrow>
          if \<not> re_context context
          then (log ''Line {row_nr}, lot# {lot_nr}: context {context} does not look right. Line skipped.''
                  [CInt (int row_nr), lot_nr, CStr context] WARNING, Skipped)
          else if \<not> 2 < length row then ([], Raised IndexError)
          else (case row ! 2 of
                  CStr t \<Rightarrow>
                    (let trench = strip t
                     in if \<not> re_trench trench
                        then (log ''Line {row_nr}, lot# {lot_nr}: trench {trench} does not look right. Line skipped.''
                                [CInt (int row_nr), lot_nr, CStr trench] WARNING, Skipped)
                        else if context \<noteq> [] \<and> trench \<noteq> take 1 context
                        then (log ''Line {row_nr}, lot# {lot_nr}: trench {trench} does not match context.''
                                [CInt (int row_nr), lot_nr, CStr trench] WARNING,
                              Accepted (context, trench))
                        else ([], Accepted (context, trench)))
                | _ \<Rightarrow> ([], Raised AttributeError)))"

definition read_type :: "nat \<Rightarrow> cell \<Rightarrow> row \<Rightarrow> log_entry list \<times> cell row_result" where
  \<comment> \<open>\<open>lot_type = row[3].value\<close>, lower-cased when truthy\<close>
  "read_type row_nr lot_nr row =
     (if \<not> 3 < length row then ([], Raised IndexError)
      else if truthy (row ! 3)
      then (case row ! 3 of
              CStr s \<Rightarrow> ([], Accepted (CStr (lower s)))
            | _ \<Rightarrow> ([], Raised AttributeError))
      else (log ''Line {row_nr}, LOT# {lot_nr}: type is empty.''
              [CInt (int row_nr), lot_nr] WARNING, Accepted (row ! 3)))"

definition read_date ::
  "nat \<Rightarrow> cell \<Rightarrow> row \<Rightarrow> nat \<Rightarrow> string \<Rightarrow> bool \<Rightarrow> log_entry list \<times> nat option" where
  \<comment> \<open>a date column: kept when it is a datetime, dropped with a note otherwise;
      \<open>warn_empty\<close> is the \<open>else\<close> branch that only "date excavated" has\<close>
  "read_date row_nr lot_nr row index' what warn_empty =
     (let v = get_or row index'
      in if truthy v
         then (case v of
                 CDateTime d \<Rightarrow> ([], Some d)
               | _ \<Rightarrow>
                   (log (''Line {row_nr}, LOT# {lot_nr}:: date '' @ what
                           @ '' {value} is not a date. Value dropped.'')
                      [CInt (int row_nr), lot_nr, v] INFO, None))
         else (if warn_empty
               then log ''Line {row_nr}, LOT# {lot_nr}:: Date excavated is empty.''
                      [CInt (int row_nr), lot_nr] WARNING
               else [], None))"

fun is_number :: "cell \<Rightarrow> bool" where
  \<comment> \<open>\<open>isinstance(v, int) or isinstance(v, float)\<close>; a bool is an int\<close>
  "is_number (CInt i) = True"
| "is_number (CFloat r) = True"
| "is_number (CBool b) = True"
| "is_number v = False"

definition read_sherd_count :: "nat \<Rightarrow> cell \<Rightarrow> row \<Rightarrow> cell \<Rightarrow> log_entry list \<times> cell row_result" where
  "read_sherd_count row_nr lot_nr row lot_type' =
     (let sherd_count = get_or row 7
      in if truthy sherd_count
         then (if \<not> is_number sherd_count
               then (log ''Line {row_nr}, LOT# {lot_nr}:: sherd count {sherd_count} is not a number. Value dropped.''
                       [CInt (int row_nr), lot_nr, sherd_count] INFO, Accepted CNone)
               else (case lot_type' of
                       CStr s \<Rightarrow>
                         (if lower s \<noteq> ''ceramic''
                          then log ''Line {row_nr}, LOT# {lot_nr}:: sherd count for a collected material that is not of type ceramic.''
                                 [CInt (int row_nr), lot_nr] INFO
                          else [], Accepted sherd_count)
                     | _ \<Rightarrow> ([], Raised AttributeError)))
         else ([], Accepted sherd_count))"

definition lot_fields ::
  "nat \<Rightarrow> row \<Rightarrow> int \<Rightarrow> string \<Rightarrow> string \<Rightarrow> log_entry list \<times> staging row_result" where
  \<comment> \<open>the pass of \<open>import_lot_rows\<close> after the lot number, context and trench checks, up
      to the parameter list of the insert\<close>
  "lot_fields row_nr row lot_nr context trench =
     then_row (read_type row_nr (CInt lot_nr) row) (\<lambda>lot_type'.
     then_row (case read_date row_nr (CInt lot_nr) row 4 ''excavated'' True of
                 (l, d) \<Rightarrow> (l, Accepted d)) (\<lambda>date_excavated'.
     then_row (case read_date row_nr (CInt lot_nr) row 6 ''recorded'' False of
                 (l, d) \<Rightarrow> (l, Accepted d)) (\<lambda>date_recorded.
     then_row (read_sherd_count row_nr (CInt lot_nr) row lot_type') (\<lambda>sherd_count.
       ([], Accepted
         \<lparr> line_ref = row_nr,
           cm_type = ''bulk'',
           lot = str_int lot_nr,
           locus = take 1 context @ ''-'' @ drop 1 context,
           unit = trench,
           arch_domain = None,
           arch_context = (take 1 context @ ''-'' @ drop 1 context) @ ''-'' @ str_int lot_nr,
           local_nr = lot_nr,
           lot_type = lot_type',
           date_excavated = date_excavated',
           date_entered = date_recorded,
           photographed = truthy (get_or row 7),
           description = get_or row 5,
           count = sherd_count,
           location = CNone,
           sf_type = CNone,
           sf_measures = None,
           sf_length_mm = None,
           sf_height_mm = None,
           sf_width_mm = None,
           sf_thickness_mm = None,
           sf_diameter_mm = None,
           sf_diameter_perf_mm = None,
           sf_weight = None,
           sf_description = CNone,
           sf_date_excavated = None,
           sf_date_entered = None,
           sf_photographed = None \<rparr>)))))"

definition lot_row :: "nat \<Rightarrow> row \<Rightarrow> log_entry list \<times> staging row_result" where
  \<comment> \<open>one pass of the loop of \<open>import_lot_rows\<close>, up to the parameter list of the insert\<close>
  "lot_row row_nr row =
     then_row (read_lot_number row_nr row) (\<lambda>lot_nr.
     then_row (check_context_trench row_nr (CInt lot_nr) row) (\<lambda>(context, trench).
       lot_fields row_nr row lot_nr context trench))"

definition sample_description :: "env \<Rightarrow> row \<Rightarrow> log_entry list \<times> cell row_result" where
  \<comment> \<open>\<open>description\<close>, with the notes appended when there are any\<close>
  "sample_description e row =
     (let description' = get_or row 4; notes = get_or row 6
      in if truthy notes
         then (case description' of
                 CNone \<Rightarrow> ([], Accepted (CStr (py_str e notes)))
               | CStr d \<Rightarrow> ([], Accepted (CStr ((d @ '' '') @ py_str e notes)))
               | _ \<Rightarrow> ([], Raised TypeError))
         else ([], Accepted description'))"

definition sample_fields ::
  "env \<Rightarrow> nat \<Rightarrow> row \<Rightarrow> string \<Rightarrow> int \<Rightarrow> string \<Rightarrow> string
     \<Rightarrow> log_entry list \<times> staging row_result" where
  \<comment> \<open>the pass of \<open>import_sample_rows\<close> after the sample number, context and trench
      checks, up to the parameter list of the insert\<close>
  "sample_fields e row_nr row lot_nr local_nr' context trench =
     then_row (read_type row_nr (CStr lot_nr) row) (\<lambda>lot_type'.
     then_row (case read_date row_nr (CStr lot_nr) row 5 ''excavated'' True of
                 (l, d) \<Rightarrow> (l, Accepted d)) (\<lambda>date_excavated'.
     then_row (sample_description e row) (\<lambda>description'.
       ([], Accepted
         \<lparr> line_ref = row_nr,
           cm_type = ''sample'',
           lot = lot_nr,
           locus = take 1 context @ ''-'' @ drop 1 context,
           unit = trench,
           arch_domain = Some ''S'',
           arch_context = (take 1 context @ ''-'' @ drop 1 context) @ ''-'' @ lot_nr,
           local_nr = local_nr',
           lot_type = lot_type',
           date_excavated = date_excavated',
           date_entered = date_excavated',
           photographed = False,
           description = description',
           count = CNone,
           location = get_or row 7,
           sf_type = CNone,
           sf_measures = None,
           sf_length_mm = None,
           sf_height_mm = None,
           sf_width_mm = None,
           sf_thickness_mm = None,
           sf_diameter_mm = None,
           sf_diameter_perf_mm = None,
           sf_weight = None,
           sf_description = CNone,
           sf_date_excavated = None,
           sf_date_entered = None,
           sf_photographed = None \<rparr>))))"

definition sample_row :: "env \<Rightarrow> nat \<Rightarrow> row \<Rightarrow> log_entry list \<times> staging row_result" where
  \<comment> \<open>one pass of the loop of \<open>import_sample_rows\<close>, up to the parameter list of the insert\<close>
  "sample_row e row_nr row =
     then_row (read_sample_number row_nr row) (\<lambda>(lot_nr, local_nr').
     then_row (check_context_trench row_nr (CStr lot_nr) row) (\<lambda>(context, trench).
       sample_fields e row_nr row lot_nr local_nr' context trench))"

section \<open>Loading lots and samples into staging\<close>

datatype db_error = PKeyViolation | OtherError

definition insert_staging :: "env \<Rightarrow> staging list \<Rightarrow> staging \<Rightarrow> db_error + staging list" where
  \<comment> \<open>the INSERT into \<open>rliim_cm_import\<close>, whose primary key is \<open>lot\<close>\<close>
  "insert_staging e tbl r =
     (if insert_error e r then Inl OtherError
      else if lot r \<in> set (map lot tbl) then Inl PKeyViolation
      else Inr (tbl @ [r]))"

text \<open>
  The local variables of a row loop and what it shares with the rest of the run: the
  staging table and the log. \<open>to_delete\<close> holds the values of \<open>lot_nr\<close> as the pass
  appends them: the int of \<open>int(row[0].value)\<close> in the Lots pass, the text of the first
  cell in the Samples pass.
\<close>

record loop_state =
  table :: "staging list"
  log_records :: "log_entry list"
  to_delete :: "cell list"
  successful_rows :: int
  line_nr :: nat

datatype run_result = ReturnedTrue | ReturnedFalse | Uncaught pyexn

fun insert_loop ::
  "env \<Rightarrow> (nat \<Rightarrow> row \<Rightarrow> log_entry list \<times> staging row_result) \<Rightarrow> (staging \<Rightarrow> cell) \<Rightarrow> int
     \<Rightarrow> row list \<Rightarrow> loop_state \<Rightarrow> run_result option \<times> loop_state" where
  \<comment> \<open>the \<open>for row in rows\<close> loop of \<open>import_lot_rows\<close> and \<open>import_sample_rows\<close>;
      \<open>lot_nr_of\<close> gives the variable \<open>lot_nr\<close> of the pass for an accepted row;
      \<open>None\<close>: the loop ended and the function goes on to the purge\<close>
  "insert_loop e row_fn lot_nr_of max_rows [] st = (None, st)"
| "insert_loop e row_fn lot_nr_of max_rows (row # rows) st =
     (let st1 = st\<lparr>line_nr := line_nr st + 1\<rparr>
      in if max_rows > - 1 \<and> int (line_nr st1) = max_rows + 2 then (None, st1)
         else (case row_fn (line_nr st1) row of
                 (l, Done) \<Rightarrow> (None, st1\<lparr>log_records := log_records st1 @ l\<rparr>)
               | (l, Skipped) \<Rightarrow>
                   insert_loop e row_fn lot_nr_of max_rows rows
                     (st1\<lparr>log_records := log_records st1 @ l\<rparr>)
               | (l, Raised ex) \<Rightarrow> (Some (Uncaught ex), st1\<lparr>log_records := log_records st1 @ l\<rparr>)
               | (l, Accepted r) \<Rightarrow>
                   (case insert_staging e (table st1) r of
                      Inr tbl \<Rightarrow>
                        insert_loop e row_fn lot_nr_of max_rows rows
                          (st1\<lparr>table := tbl, log_records := log_records st1 @ l,
                               successful_rows := successful_rows st1 + 1\<rparr>)
                    | Inl PKeyViolation \<Rightarrow>
                        insert_loop e row_fn lot_nr_of max_rows rows
                          (st1\<lparr>log_records := log_records st1 @ l
                                 @ log ''Line {row_nr}, LOT# {lot_nr}: Duplicate lot number. All lines with this lot number will be skipped.''
                                     [CInt (int (line_nr st1)), lot_nr_of r] ERROR,
                               to_delete := to_delete st1 @ [lot_nr_of r]\<rparr>)
                    | Inl OtherError \<Rightarrow>
                        (Some ReturnedFalse,
                         st1\<lparr>log_records := log_records st1 @ l
                                 @ log ''Line {row_nr}, LOT# {lot_nr}: SQL Error. Aborting.''
                                     [CInt (int (line_nr st1)), lot_nr_of r] ERROR\<rparr>))))"

definition delete_where_lot :: "cell \<Rightarrow> staging list \<Rightarrow> pyexn + staging list \<times> int" where
  \<comment> \<open>\<open>execute("delete from rliim_cm_import where lot=%s", parameters=[lot])\<close> and its row
      count. The column \<open>lot\<close> is VARCHAR: a text parameter is compared with it, a null
      parameter matches no row, and for an int (or any other) parameter the database has
      no operator "character varying = integer" and the statement raises\<close>
  "delete_where_lot v tbl =
     (case v of
        CStr s \<Rightarrow> Inr (filter (\<lambda>r. lot r \<noteq> s) tbl, int (length (filter (\<lambda>r. lot r = s) tbl)))
      | CNone \<Rightarrow> Inr (tbl, 0)
      | _ \<Rightarrow> Inl UndefinedFunction)"

fun purge :: "cell list \<Rightarrow> staging list \<times> int \<Rightarrow> pyexn option \<times> staging list \<times> int" where
  \<comment> \<open>\<open>for lot in to_delete: c = execute("delete ... where lot=%s"); successful_rows -= c\<close>;
      the result is the exception of a delete that raises, if any, the table and
      \<open>successful_rows\<close>\<close>
  "purge [] (tbl, n) = (None, tbl, n)"
| "purge (l # ls) (tbl, n) =
     (case delete_where_lot l tbl of
        Inl ex \<Rightarrow> (Some ex, tbl, n)
      | Inr (tbl', c) \<Rightarrow> purge ls (tbl', n - c))"

definition finish_import :: "string \<Rightarrow> loop_state \<Rightarrow> run_result \<times> loop_state" where
  \<comment> \<open>the statements after the loop: the purge, the two closing log lines and
      \<open>return True\<close>; an exception of the purge is not caught\<close>
  "finish_import sheet st =
     (case purge (to_delete st) (table st, successful_rows st) of
        (Some ex, tbl, n) \<Rightarrow> (Uncaught ex, st\<lparr>table := tbl, successful_rows := n\<rparr>)
      | (None, tbl, n) \<Rightarrow>
          (ReturnedTrue,
           st\<lparr>table := tbl, successful_rows := n,
              log_records := log_records st
                @ (if to_delete st \<noteq> []
                   then log ''Deleted {len(to_delete)} lot numbers because they existed more than once in the source.''
                          [CInt (int (length (to_delete st)))] INFO
                   else [])
                @ log ''Successfully imported {successful_rows} of {row_nr} rows from sheet {sheet}''
                    [CInt n, CInt (int (line_nr st)), CStr sheet] INFO\<rparr>))"

definition start_state :: "staging list \<Rightarrow> log_entry list \<Rightarrow> loop_state" where
  "start_state tbl lg =
     \<lparr>table = tbl, log_records = lg, to_delete = [], successful_rows = 0, line_nr = 1\<rparr>"

text \<open>
  A worksheet is the list of its rows, the header row first; \<open>ws.iter_rows(min_row=2)\<close>
  yields the rows after the first.
\<close>

type_synonym worksheet = "row list"

definition import_rows ::
  "env \<Rightarrow> (nat \<Rightarrow> row \<Rightarrow> log_entry list \<times> staging row_result) \<Rightarrow> (staging \<Rightarrow> cell) \<Rightarrow> string
     \<Rightarrow> worksheet \<Rightarrow> int \<Rightarrow> staging list \<Rightarrow> log_entry list \<Rightarrow> run_result \<times> loop_state" where
  "import_rows e row_fn lot_nr_of sheet ws max_rows tbl lg =
     (case insert_loop e row_fn lot_nr_of max_rows (drop 1 ws) (start_state tbl lg) of
        (Some r, st) \<Rightarrow> (r, st)
      | (None, st) \<Rightarrow> finish_import sheet st)"

definition lot_nr_int :: "staging \<Rightarrow> cell" where
  \<comment> \<open>\<open>lot_nr\<close> in \<open>import_lot_rows\<close>: the int that is also passed as \<open>local_nr\<close>\<close>
  "lot_nr_int r = CInt (local_nr r)"

definition lot_nr_text :: "staging \<Rightarrow> cell" where
  \<comment> \<open>\<open>lot_nr\<close> in \<open>import_sample_rows\<close>: the text of the first cell, passed as \<open>lot\<close>\<close>
  "lot_nr_text r = CStr (lot r)"

definition import_lot_rows ::
  "env \<Rightarrow> worksheet \<Rightarrow> int \<Rightarrow> staging list \<Rightarrow> log_entry list \<Rightarrow> run_result \<times> loop_state" where
  "import_lot_rows e ws max_rows tbl lg =
     import_rows e lot_row lot_nr_int ''Lots'' ws max_rows tbl lg"

definition import_sample_rows ::
  "env \<Rightarrow> worksheet \<Rightarrow> int \<Rightarrow> staging list \<Rightarrow> log_entry list \<Rightarrow> run_result \<times> loop_state" where
  "import_sample_rows e ws max_rows tbl lg =
     import_rows e (sample_row e) lot_nr_text ''Samples'' ws max_rows tbl lg"


section \<open>The artifact pass\<close>

definition measure_key :: "string \<Rightarrow> string option" where
  \<comment> \<open>the \<open>if/elif\<close> chain over \<open>key\<close> in \<open>interpret_measure_token\<close>; \<open>None\<close> is its \<open>else\<close>\<close>
  "measure_key key =
     (if key \<in> set [''w'', ''l'', ''h''] then Some key
      else if contains ''perf'' key then Some ''perf''
      else if contains ''weight'' key then Some ''weight''
      else if contains ''dia'' key then Some ''dia''
      else if contains ''len'' key then Some ''l''
      else if contains ''width'' key then Some ''w''
      else if contains ''height'' key then Some ''h''
      else if contains ''thick'' key then Some ''thickness''
      else None)"

definition interpret_measure_token :: "env \<Rightarrow> string \<Rightarrow> string \<times> string" where
  "interpret_measure_token e t =
     (case split_on CHR '':'' t of
        [k, v] \<Rightarrow>
          (let key = lower (strip k); value = lower (strip v)
           in case measure_key key of
                None \<Rightarrow> (''error'', ''unclear dimension '' @ key)
              | Some key' \<Rightarrow>
                  if \<not> (contains ''mm'' value \<or> contains ''cm'' value \<or> contains '' m'' value)
                     \<and> \<not> (key' = ''weight'' \<and> contains ''g'' value)
                  then (''error'', ''no known measurement unit in '' @ key' @ ''.'')
                  else if force_positive_int_from_string e t = - 1
                  then (''error'', ''no number in '' @ t)
                  else (key', value))
      | _ \<Rightarrow> (''error'', '': missing in '' @ t))"

record dims =
  d_length :: "string option"
  d_height :: "string option"
  d_width :: "string option"
  d_thickness :: "string option"
  d_diameter :: "string option"
  d_diameter_perf :: "string option"

definition no_dims :: dims where
  "no_dims = \<lparr>d_length = None, d_height = None, d_width = None, d_thickness = None,
               d_diameter = None, d_diameter_perf = None\<rparr>"

fun is_set :: "string option \<Rightarrow> bool" where
  \<comment> \<open>\<open>if width:\<close> for a variable that is \<open>None\<close> or a string\<close>
  "is_set None = False"
| "is_set (Some v) = (v \<noteq> [])"

definition twice :: "nat \<Rightarrow> int \<Rightarrow> string \<Rightarrow> log_entry list" where
  "twice row_nr lot_nr key =
     log ''Line {row_nr}, LOT# {lot_nr}:: Other Dimensions has {key} twice or more. That part is dropped.''
       [CInt (int row_nr), CInt lot_nr, CStr key] INFO"

definition store_measure ::
  "env \<Rightarrow> nat \<Rightarrow> int \<Rightarrow> string \<Rightarrow> log_entry list \<times> dims \<Rightarrow> log_entry list \<times> dims" where
  \<comment> \<open>the body of \<open>for t in token:\<close>\<close>
  "store_measure e row_nr lot_nr t acc =
     (case acc of (l, d) \<Rightarrow>
      (case interpret_measure_token e t of
        (key, value) \<Rightarrow>
            (if key = ''error''
             then (l @ log ''Line {row_nr}, LOT# {lot_nr}:: Other Dimensions has part {t} that I cant interpret ({value}). That part is dropped.''
                         [CInt (int row_nr), CInt lot_nr, CStr t, CStr value] INFO, d)
             else if key = ''w''
             then (if is_set (d_width d) then (l @ twice row_nr lot_nr key, d)
                   else (l, d\<lparr>d_width := Some value\<rparr>))
             else if key = ''l''
             then (if is_set (d_length d) then (l @ twice row_nr lot_nr key, d)
                   else (l, d\<lparr>d_length := Some value\<rparr>))
             else if key = ''h''
             then (if is_set (d_height d) then (l @ twice row_nr lot_nr key, d)
                   else (l, d\<lparr>d_height := Some value\<rparr>))
             else if key = ''thickness''
             then (if is_set (d_thickness d) then (l @ twice row_nr lot_nr key, d)
                   else (l, d\<lparr>d_thickness := Some value\<rparr>))
             else if key = ''dia''
             then (if is_set (d_diameter d) then (l @ twice row_nr lot_nr key, d)
                   else (l, d\<lparr>d_diameter := Some value\<rparr>))
             else if key = ''perf''
             then (if is_set (d_diameter_perf d) then (l @ twice row_nr lot_nr key, d)
                   else (l, d\<lparr>d_diameter_perf := Some value\<rparr>))
             else (l @ log ''Line {row_nr}, LOT# {lot_nr}:: Other Dimensions has {key}. What is that? That part is dropped.''
                         [CInt (int row_nr), CInt lot_nr, CStr key] ERROR, d))))"

fun read_measures ::
  "env \<Rightarrow> nat \<Rightarrow> int \<Rightarrow> string list \<Rightarrow> log_entry list \<times> dims \<Rightarrow> log_entry list \<times> dims" where
  \<comment> \<open>\<open>for t in token:\<close> over the parts of "other dimensions"\<close>
  "read_measures e row_nr lot_nr [] acc = acc"
| "read_measures e row_nr lot_nr (t # ts) acc =
     read_measures e row_nr lot_nr ts (store_measure e row_nr lot_nr t acc)"

definition artifact_measures ::
  "env \<Rightarrow> nat \<Rightarrow> int \<Rightarrow> cell \<Rightarrow> log_entry list \<times> (string option \<times> dims) row_result" where
  \<comment> \<open>\<open>if measures:\<close> with its \<open>replace\<close>, \<open>split\<close> and token loop\<close>
  "artifact_measures e row_nr lot_nr measures' =
     (if truthy measures'
      then (case measures' of
              CStr m \<Rightarrow>
                (case read_measures e row_nr lot_nr
                        (split_on CHR '';'' (replace_char CHR '','' CHR '';'' m)) ([], no_dims) of
                   (l, d) \<Rightarrow> (l, Accepted (Some (replace_char CHR '','' CHR '';'' m), d)))
            | CDateTime t \<Rightarrow> ([], Raised TypeError)
            | _ \<Rightarrow> ([], Raised AttributeError))
      else ([], Accepted (None, no_dims)))"

definition artifact_weight ::
  "env \<Rightarrow> nat \<Rightarrow> int \<Rightarrow> cell \<Rightarrow> log_entry list \<times> int option row_result" where
  \<comment> \<open>\<open>if weight_raw:\<close>, whose error branch ends in \<open>continue\<close>\<close>
  "artifact_weight e row_nr lot_nr weight_raw =
     (if truthy weight_raw
      then (case weight_raw of
              CStr w \<Rightarrow>
                (case interpret_measure_token e (''weight: '' @ w) of
                   (key, value) \<Rightarrow>
                     if key = ''error''
                     then (log ''Line {row_nr}, LOT# {lot_nr}:: Weight {weight_raw} looks fishy ({value}). Value dropped.''
                             [CInt (int row_nr), CInt lot_nr, CStr w, CStr value] INFO, Skipped)
                     else ([], Accepted (Some (force_positive_int_from_string e w))))
            | _ \<Rightarrow> ([], Raised TypeError))
      else ([], Accepted None))"

definition find_lot_record ::
  "staging list \<Rightarrow> nat \<Rightarrow> int \<Rightarrow> string \<Rightarrow> log_entry list \<times> staging row_result" where
  \<comment> \<open>\<open>get_record_count\<close> and \<open>get_first_record\<close> on \<open>lot = str(lot_nr)\<close>, and the context comparison\<close>
  "find_lot_record tbl row_nr lot_nr context =
     (let c = length (filter (\<lambda>r. lot r = str_int lot_nr) tbl)
      in if c = 0
         then (log ''Line {row_nr}, LOT# {lot_nr}:: There is no record in Lots that matches line {row_nr} in Artifacts. line skipped!''
                 [CInt (int row_nr), CInt lot_nr] ERROR, Skipped)
         else if c > 1
         then (log ''Line {row_nr}, LOT# {lot_nr}:: There is more than one record in Lots that matches line {row_nr} in Artifacts. That should not be the case at all! line skipped!''
                 [CInt (int row_nr), CInt lot_nr] ERROR, Skipped)
         else (case filter (\<lambda>r. lot r = str_int lot_nr) tbl of
                 [] \<Rightarrow> ([], Raised TypeError)
               | r # _ \<Rightarrow>
                   if context \<noteq> locus r
                   then (log ''Line {row_nr}, LOT# {lot_nr}:: The context in artifacts does not match the context in Lots. line skipped!''
                           [CInt (int row_nr), CInt lot_nr] ERROR, Skipped)
                   else ([], Accepted r)))"

definition artifact_fields ::
  "env \<Rightarrow> staging list \<Rightarrow> nat \<Rightarrow> row \<Rightarrow> int \<Rightarrow> string
     \<Rightarrow> log_entry list \<times> artifact_params row_result" where
  \<comment> \<open>the pass of \<open>import_artifacts_rows\<close> after the lot number, context and trench
      checks, up to the parameter list of the update; the trench is not used again\<close>
  "artifact_fields e tbl row_nr row lot_nr context =
     then_row (read_type row_nr (CInt lot_nr) row) (\<lambda>sf_type'.
     then_row (case read_date row_nr (CInt lot_nr) row 4 ''excavated'' True of
                 (l, d) \<Rightarrow> (l, Accepted d)) (\<lambda>date_excavated'.
     then_row (case read_date row_nr (CInt lot_nr) row 8 ''recorded'' False of
                 (l, d) \<Rightarrow> (l, Accepted d)) (\<lambda>date_recorded.
     then_row (artifact_measures e row_nr lot_nr (get_or row 5)) (\<lambda>(measures', d).
     then_row (artifact_weight e row_nr lot_nr (get_or row 6)) (\<lambda>weight.
     then_row (find_lot_record tbl row_nr lot_nr (take 1 context @ ''-'' @ drop 1 context)) (\<lambda>r.
       ([], Accepted
         \<lparr> p_line_ref = row_nr,
           p_cm_type = ''small_find'',
           p_sf_type = sf_type',
           p_sf_measures = measures',
           p_sf_length_mm = d_length d,
           p_sf_height_mm = d_height d,
           p_sf_width_mm = d_width d,
           p_sf_thickness_mm = d_thickness d,
           p_sf_diameter_mm = d_diameter d,
           p_sf_diameter_perf_mm = d_diameter_perf d,
           p_sf_weight = weight,
           p_sf_description = get_or row 7,
           p_sf_date_excavated = date_excavated',
           p_sf_date_entered = date_recorded,
           p_sf_photographed = truthy (get_or row 9),
           p_lot = str_int lot_nr \<rparr>)))))))"

definition artifact_row ::
  "env \<Rightarrow> staging list \<Rightarrow> nat \<Rightarrow> row \<Rightarrow> log_entry list \<times> artifact_params row_result" where
  \<comment> \<open>one pass of the loop of \<open>import_artifacts_rows\<close>, up to the parameter list of the update\<close>
  "artifact_row e tbl row_nr row =
     then_row (read_lot_number row_nr row) (\<lambda>lot_nr.
     then_row (check_context_trench row_nr (CInt lot_nr) row) (\<lambda>(context, trench).
       artifact_fields e tbl row_nr row lot_nr context))"

definition sql_update :: "artifact_params \<Rightarrow> staging list \<Rightarrow> staging list" where
  \<comment> \<open>\<open>UPDATE rliim_cm_import SET ... WHERE lot=%s\<close>\<close>
  "sql_update p tbl =
     map (\<lambda>r. if lot r = p_lot p
               then r\<lparr> line_ref := p_line_ref p,
                       cm_type := p_cm_type p,
                       sf_type := p_sf_type p,
                       sf_measures := p_sf_measures p,
                       sf_length_mm := p_sf_length_mm p,
                       sf_height_mm := p_sf_height_mm p,
                       sf_width_mm := p_sf_width_mm p,
                       sf_thickness_mm := p_sf_thickness_mm p,
                       sf_diameter_mm := p_sf_diameter_mm p,
                       sf_diameter_perf_mm := p_sf_diameter_perf_mm p,
                       sf_weight := p_sf_weight p,
                       sf_description := p_sf_description p,
                       sf_date_excavated := p_sf_date_excavated p,
                       sf_date_entered := p_sf_date_entered p,
                       sf_photographed := Some (p_sf_photographed p) \<rparr>
               else r) tbl"

fun update_loop ::
  "env \<Rightarrow> int \<Rightarrow> row list \<Rightarrow> loop_state \<Rightarrow> run_result option \<times> loop_state" where
  \<comment> \<open>the \<open>for row in rows\<close> loop of \<open>import_artifacts_rows\<close>\<close>
  "update_loop e max_rows [] st = (None, st)"
| "update_loop e max_rows (row # rows) st =
     (let st1 = st\<lparr>line_nr := line_nr st + 1\<rparr>
      in if max_rows > - 1 \<and> int (line_nr st1) = max_rows + 2 then (None, st1)
         else (case artifact_row e (table st1) (line_nr st1) row of
                 (l, Done) \<Rightarrow> (None, st1\<lparr>log_records := log_records st1 @ l\<rparr>)
               | (l, Skipped) \<Rightarrow>
                   update_loop e max_rows rows (st1\<lparr>log_records := log_records st1 @ l\<rparr>)
               | (l, Raised ex) \<Rightarrow> (Some (Uncaught ex), st1\<lparr>log_records := log_records st1 @ l\<rparr>)
               | (l, Accepted p) \<Rightarrow>
                   if update_error e p
                   then (Some ReturnedFalse,
                         st1\<lparr>log_records := log_records st1 @ l
                                 @ log ''Line {row_nr}, LOT# {lot_nr}: SQL Error. Aborting.''
                                     [CInt (int (line_nr st1)), CStr (p_lot p)] ERROR\<rparr>)
                   else update_loop e max_rows rows
                          (st1\<lparr>table := sql_update p (table st1),
                               log_records := log_records st1 @ l,
                               successful_rows := successful_rows st1 + 1\<rparr>)))"

definition import_artifacts_rows ::
  "env \<Rightarrow> worksheet \<Rightarrow> int \<Rightarrow> staging list \<Rightarrow> log_entry list \<Rightarrow> run_result \<times> loop_state" where
  "import_artifacts_rows e ws max_rows tbl lg =
     (case update_loop e max_rows (drop 1 ws) (start_state tbl lg) of
        (Some r, st) \<Rightarrow> (r, st)
      | (None, st) \<Rightarrow>
          (ReturnedTrue,
           st\<lparr>log_records := log_records st
                @ log ''Successfully imported {successful_rows} of {row_nr} rows from sheet {sheet}''
                    [CInt (successful_rows st), CInt (int (line_nr st)), CStr ''Artifacts''] INFO\<rparr>))"

section \<open>The workbook\<close>

definition expected_cols_lots :: "string list" where
  "expected_cols_lots =
     [''lot number'', ''context'', ''trench'', ''type'', ''date excavated'', ''extra info'',
      ''date uploaded'', ''total number of sherds'', ''recorded'', ''photographed'']"

definition expected_cols_samples :: "string list" where
  "expected_cols_samples =
     [''Sample Number'', ''context'', ''trench'', ''type'', ''description'', ''date'', ''notes'',
      ''location'']"

definition expected_cols_artifacts :: "string list" where
  "expected_cols_artifacts =
     [''lot number'', ''context'', ''trench'', ''type'', ''date excavated'', ''other dimensions'',
      ''weight'', ''description'', ''date entered'', ''photographed?'']"

definition header_cell :: "worksheet \<Rightarrow> nat \<Rightarrow> cell" where
  \<comment> \<open>\<open>ws.cell(1, col_idx + 1).value\<close>; a cell that does not exist has the value \<open>None\<close>\<close>
  "header_cell ws col_idx =
     (case ws of [] \<Rightarrow> CNone
      | h # _ \<Rightarrow> if col_idx < length h then h ! col_idx else CNone)"

fun check_cols :: "worksheet \<Rightarrow> nat \<Rightarrow> string list \<Rightarrow> log_entry list \<times> bool \<Rightarrow> log_entry list \<times> bool" where
  \<comment> \<open>the loop of \<open>check_structure\<close> over \<open>enumerate(expected_cols)\<close>, carrying the log and \<open>err\<close>\<close>
  "check_cols ws col_idx [] acc = acc"
| "check_cols ws col_idx (col_name # cols) (l, err) =
     check_cols ws (col_idx + 1) cols
       (case header_cell ws col_idx of
          CStr s \<Rightarrow>
            if lower s \<noteq> lower col_name
            then (l @ log ''row 1, col {col_idx + 1}: expected {col_name}, got {v}''
                        [CInt (int col_idx + 1), CStr col_name, CStr (lower s)] ERROR, True)
            else (l, err)
        | _ \<Rightarrow> (l @ log ''row 1, col {col_idx + 1}: {repr(e)}'' [CInt (int col_idx + 1)] (- 1), True))"

definition check_structure :: "worksheet \<Rightarrow> string list \<Rightarrow> log_entry list \<times> bool" where
  "check_structure ws expected_cols =
     (case check_cols ws 0 expected_cols ([], False) of (l, err) \<Rightarrow> (l, \<not> err))"

type_synonym workbook = "(string \<times> worksheet) list"

definition sheet_structures :: "string \<Rightarrow> string list" where
  "sheet_structures sheet =
     (if sheet = ''Lots'' then expected_cols_lots
      else if sheet = ''Samples'' then expected_cols_samples
      else expected_cols_artifacts)"

fun check_sheets :: "workbook \<Rightarrow> string list \<Rightarrow> log_entry list \<Rightarrow> pyexn option \<times> log_entry list" where
  \<comment> \<open>the first loop of \<open>import_workbook\<close>; \<open>wb[sheet]\<close> raises KeyError for a missing sheet\<close>
  "check_sheets wb [] lg = (None, lg)"
| "check_sheets wb (sheet # sheets) lg =
     (let lg1 = lg @ (if sheet \<notin> set (map fst wb)
                      then log ''there is no sheet {sheet} in this workbook.'' [CStr sheet] ERROR
                      else [])
      in case map_of wb sheet of
           None \<Rightarrow> (Some KeyError, lg1)
         | Some ws \<Rightarrow>
             (case check_structure ws (sheet_structures sheet) of
                (l, ok) \<Rightarrow>
                  check_sheets wb sheets
                    (lg1 @ l
                     @ (if \<not> ok
                        then log ''there are structural errors in the worksheet {sheet}: Aborting.''
                               [CStr sheet] ERROR
                        else log ''Worksheet structure for sheet {sheet} okay.'' [CStr sheet] INFO))))"

definition import_workbook ::
  "env \<Rightarrow> workbook \<Rightarrow> staging list \<Rightarrow> log_entry list
     \<Rightarrow> pyexn option \<times> staging list \<times> log_entry list" where
  \<comment> \<open>the result is the exception that leaves the function, if any, the staging table
      and the log\<close>
  "import_workbook e wb tbl lg =
     (case check_sheets wb [''Lots'', ''Samples'', ''Artifacts'']
             (lg @ log (replicate 80 CHR ''*'') [] SEPARATOR
                 @ log ''Workbook {filename}'' [] SEPARATOR
                 @ log (replicate 80 CHR ''*'') [] SEPARATOR) of
        (Some ex, lg1) \<Rightarrow> (Some ex, tbl, lg1)
      | (None, lg1) \<Rightarrow>
          (case map_of wb ''Lots'' of
             None \<Rightarrow> (Some KeyError, tbl, lg1)
           | Some ws_lots \<Rightarrow>
               (case import_lot_rows e ws_lots (- 1) tbl
                       (lg1 @ log ''--------------------------------------------'' [] INFO
                            @ log ''Importing Worksheet Lots:'' [] INFO) of
                  (Uncaught ex, st) \<Rightarrow> (Some ex, table st, log_records st)
                | (_, st) \<Rightarrow>
                    (case map_of wb ''Samples'' of
                       None \<Rightarrow> (Some KeyError, table st, log_records st)
                     | Some ws_samples \<Rightarrow>
                         (case import_sample_rows e ws_samples (- 1) (table st)
                                 (log_records st @ log ''Importing Worksheet Samples:'' [] INFO) of
                            (Uncaught ex, st2) \<Rightarrow> (Some ex, table st2, log_records st2)
                          | (_, st2) \<Rightarrow>
                              (case map_of wb ''Artifacts'' of
                                 None \<Rightarrow> (Some KeyError, table st2, log_records st2)
                               | Some ws_artifacts \<Rightarrow>
                                   (case import_artifacts_rows e ws_artifacts (- 1) (table st2)
                                           (log_records st2
                                            @ log ''Importing Worksheet Artifacts:'' [] INFO) of
                                      (Uncaught ex, st3) \<Rightarrow> (Some ex, table st3, log_records st3)
                                    | (_, st3) \<Rightarrow> (None, table st3, log_records st3))))))))"


section \<open>The weight conversion \<open>get_grams\<close>\<close>

definition is_num_char :: "char \<Rightarrow> bool" where
  \<comment> \<open>the class \<open>[\d|.|,]\<close>\<close>
  "is_num_char c = (is_digit c \<or> c \<in> set ''|.,'')"

definition is_unit_char :: "char \<Rightarrow> bool" where
  \<comment> \<open>the class \<open>[A-z]\<close>\<close>
  "is_unit_char c = (let n = (of_char c :: nat) in 65 \<le> n \<and> n \<le> 122)"

definition re_grams :: "string \<Rightarrow> (string \<times> string) option" where
  \<comment> \<open>the groups \<open>num\<close> and \<open>unit\<close> of
      \<open>^\s*(?P<num>[\d|.|,]*)\s*(?P<unit>[A-z]*)\s*$\<close>; the three classes are disjoint,
      so the match is the scan from left to right\<close>
  "re_grams s =
     (let s1 = dropWhile is_space s;
          s2 = dropWhile is_num_char s1;
          s3 = dropWhile is_space s2;
          s4 = dropWhile is_unit_char s3
      in if dropWhile is_space s4 = []
         then Some (takeWhile is_num_char s1, takeWhile is_unit_char s3)
         else None)"

definition digits_value :: "string \<Rightarrow> nat" where
  "digits_value ds = foldl (\<lambda>acc c. acc * 10 + digit_val c) 0 ds"

definition py_float_num :: "string \<Rightarrow> rat option" where
  \<comment> \<open>\<open>float(s)\<close> for a string of the class \<open>[\d|.|,]\<close>: digits with at most one point;
      the value is the decimal fraction itself, not its rounding to a double\<close>
  "py_float_num s =
     (let ip = takeWhile is_digit s
      in case dropWhile is_digit s of
           [] \<Rightarrow> if ip = [] then None else Some (of_nat (digits_value ip))
         | c # fp \<Rightarrow>
             if c = CHR ''.'' \<and> list_all is_digit fp \<and> (ip \<noteq> [] \<or> fp \<noteq> [])
             then Some (of_nat (digits_value ip) + of_nat (digits_value fp) / 10 ^ length fp)
             else None)"

definition get_grams :: "string \<Rightarrow> string + rat" where
  \<comment> \<open>\<open>Inl\<close> is the message of the ValueError\<close>
  "get_grams gram_expr =
     (if gram_expr = [] \<or> strip gram_expr = [] then Inl ''empty''
      else (case re_grams gram_expr of
              None \<Rightarrow> Inl ''unclear weight''
            | Some (num, unit') \<Rightarrow>
                if num = [] then Inl ''Missing numerical part''
                else (case py_float_num num of
                        None \<Rightarrow> Inl ''could not convert string to float''
                      | Some n \<Rightarrow>
                          (let u = (if unit' \<noteq> [] then lower unit' else ''g'')
                           in if u \<in> set [''g'', ''grams'', ''gr''] then Inr n
                              else if u \<in> set [''kg'', ''k''] then Inr (n * 1000)
                              else Inl ''Unit unknown''))))"

section \<open>The production relations\<close>

text \<open>
  The columns of \<open>locus\<close>, \<open>collected_material\<close>, \<open>small_find\<close> and
  \<open>collected_material_photo\<close> that the statements of this repository read or write;
  every other table of the database is in the extension slot of the record \<open>db\<close>.
  \<open>cm_description\<close> holds the arguments of \<open>concat_ws\<close> that are not null, in order.
  A new row takes its \<open>uid\<close> from the counter \<open>next_uid\<close>.
\<close>

record locus_row =
  locus_uid :: nat
  locus_arch_context :: "string option"

record collected_material_row =
  cm_uid :: nat
  cm_uid_locus :: "nat option"
  cm_material_type :: cell
  cm_description :: "cell list"
  cm_quantity :: cell
  cm_isobject :: "int option"
  cm_date :: "nat option"
  cm_storage :: cell
  cm_status_todo :: "string option"
  cm_status_done :: "string option"
  cm_dearregistrar :: "string option"
  cm_created :: "nat option"
  cm_modified :: "nat option"
  cm_modified_tz :: "int option"
  cm_modified_ww :: "nat option"
  cm_modified_by :: "string option"
  cm_arch_domain :: "string option"
  cm_arch_context :: "string option"
  cm_cm_type :: "string option"

record small_find_row =
  find_uid :: nat
  find_uid_cm :: "nat option"
  find_material :: cell
  find_length :: "string option"
  find_width :: "string option"
  find_thickness :: "string option"
  find_weight :: "int option"
  find_height :: "string option"
  find_diameter :: "string option"
  find_id_registrar :: "string option"
  find_created :: "nat option"
  find_modified :: "nat option"
  find_modified_tz :: "int option"
  find_modified_ww :: "nat option"
  find_modified_by :: "string option"

record photo_row =
  photo_uid :: nat
  photo_uid_cm :: "nat option"

record db =
  rliim_cm_import :: "staging list"
  locus_table :: "locus_row list"
  collected_material :: "collected_material_row list"
  small_find :: "small_find_row list"
  collected_material_photo :: "photo_row list"
  next_uid :: nat

definition import_marker :: string where
  "import_marker = ''imported by rliim kiosk bridge''"

fun coalesce :: "'a option \<Rightarrow> 'a option \<Rightarrow> 'a option" where
  "coalesce (Some x) y = Some x"
| "coalesce None y = y"

definition cell_parts :: "cell list \<Rightarrow> cell list" where
  \<comment> \<open>the arguments \<open>concat_ws\<close> keeps: those that are not null\<close>
  "cell_parts vs = filter (\<lambda>v. v \<noteq> CNone) vs"

section \<open>The production merge\<close>

definition select_new_cm :: "'a db_scheme \<Rightarrow> (staging \<times> locus_row) list" where
  \<comment> \<open>the FROM and WHERE clauses of \<open>sql_insert\<close>: the inner join with \<open>locus\<close> and the
      anti-join with \<open>collected_material\<close>; \<open>rliim.locus\<close> is never null\<close>
  "select_new_cm d =
     [(r, l). r \<leftarrow> rliim_cm_import d, l \<leftarrow> locus_table d,
              locus_arch_context l = Some (locus r)
              \<and> \<not> (\<exists>c \<in> set (collected_material d). cm_arch_context c = Some (arch_context r))]"

definition new_cm :: "nat \<Rightarrow> nat \<Rightarrow> staging \<times> locus_row \<Rightarrow> nat \<Rightarrow> collected_material_row" where
  \<comment> \<open>the select list of \<open>sql_insert\<close>; \<open>now\<close> is \<open>now()\<close> and \<open>now_eastern\<close> is
      \<open>now() at time zone 'US/Eastern'\<close>\<close>
  "new_cm now now_eastern rl u =
     (case rl of (r, l) \<Rightarrow>
       (let entered = coalesce (sf_date_entered r) (date_entered r)
        in \<lparr> cm_uid = u,
             cm_uid_locus = Some (locus_uid l),
             cm_material_type = lot_type r,
             cm_description =
               cell_parts [description r, sf_description r,
                 (case sf_diameter_perf_mm r of
                    None \<Rightarrow> CNone
                  | Some p \<Rightarrow> CStr (''diameter perf.: '' @ p))],
             cm_quantity = count r,
             cm_isobject = Some (if cm_type r = ''small_find'' then 1 else 0),
             cm_date = coalesce (sf_date_excavated r) (date_excavated r),
             cm_storage = location r,
             cm_status_todo = Some (if photographed r then ''P'' else []),
             cm_status_done = Some (if photographed r then ''P'' else []),
             cm_dearregistrar = Some import_marker,
             cm_created = coalesce entered (Some now_eastern),
             cm_modified = (if entered = None then Some now else entered),
             cm_modified_tz = Some (if entered = None then 99401495 else 98284531),
             cm_modified_ww = (if entered = None then Some now_eastern else entered),
             cm_modified_by = Some ''admin'',
             cm_arch_domain = arch_domain r,
             cm_arch_context = Some (arch_context r),
             cm_cm_type = Some (cm_type r) \<rparr>))"

definition sql_insert :: "nat \<Rightarrow> nat \<Rightarrow> 'a db_scheme \<Rightarrow> 'a db_scheme \<times> nat" where
  \<comment> \<open>the statement \<open>sql_insert\<close> and its row count\<close>
  "sql_insert now now_eastern d =
     (let sel = select_new_cm d; n = length sel
      in (d\<lparr>collected_material :=
               collected_material d
               @ map (\<lambda>(rl, u). new_cm now now_eastern rl u) (zip sel [next_uid d ..< next_uid d + n]),
            next_uid := next_uid d + n\<rparr>, n))"

definition not_in :: "nat \<Rightarrow> nat option list \<Rightarrow> bool" where
  \<comment> \<open>SQL's \<open>x not in (subquery)\<close> for an \<open>x\<close> that is not null: a null among the
      subquery's rows makes it unknown, and the row is filtered out\<close>
  "not_in x ys = (Some x \<notin> set ys \<and> None \<notin> set ys)"

definition select_new_small_finds :: "'a db_scheme \<Rightarrow> (staging \<times> collected_material_row) list" where
  \<comment> \<open>the FROM and WHERE clauses of \<open>sql_add_small_finds\<close>\<close>
  "select_new_small_finds d =
     [(r, c). r \<leftarrow> rliim_cm_import d, c \<leftarrow> collected_material d,
              cm_arch_context c = Some (arch_context r)
              \<and> cm_cm_type c = Some ''small_find''
              \<and> not_in (cm_uid c) (map find_uid_cm (small_find d))]"

definition new_small_find ::
  "nat \<Rightarrow> nat \<Rightarrow> staging \<times> collected_material_row \<Rightarrow> nat \<Rightarrow> small_find_row" where
  \<comment> \<open>the select list of \<open>sql_add_small_finds\<close>\<close>
  "new_small_find now now_eastern rc u =
     (case rc of (r, c) \<Rightarrow>
        \<lparr> find_uid = u,
          find_uid_cm = Some (cm_uid c),
          find_material = sf_type r,
          find_length = sf_length_mm r,
          find_width = sf_width_mm r,
          find_thickness = sf_thickness_mm r,
          find_weight = sf_weight r,
          find_height = sf_height_mm r,
          find_diameter = sf_diameter_mm r,
          find_id_registrar = Some ''admin'',
          find_created = coalesce (sf_date_entered r) (Some now_eastern),
          find_modified = (if sf_date_entered r = None then Some now else sf_date_entered r),
          find_modified_tz = Some (if sf_date_entered r = None then 99401495 else 98284531),
          find_modified_ww = coalesce (sf_date_entered r) (Some now_eastern),
          find_modified_by = Some ''admin'' \<rparr>)"

definition sql_add_small_finds :: "nat \<Rightarrow> nat \<Rightarrow> 'a db_scheme \<Rightarrow> 'a db_scheme \<times> nat" where
  \<comment> \<open>the statement \<open>sql_add_small_finds\<close> and its row count\<close>
  "sql_add_small_finds now now_eastern d =
     (let sel = select_new_small_finds d; n = length sel
      in (d\<lparr>small_find :=
               small_find d
               @ map (\<lambda>(rc, u). new_small_find now now_eastern rc u)
                   (zip sel [next_uid d ..< next_uid d + n]),
            next_uid := next_uid d + n\<rparr>, n))"

text \<open>
  The database calls of the merge and of the erasure that can raise; \<open>fails\<close> says which
  of them do. The analysis query only feeds the log and is not evaluated here. After a
  failure the rollback restores the database the function was called with.
\<close>

datatype db_call =
    BeginSavepoint | GetRecords | ExecuteInsert | ExecuteAddSmallFinds | CommitSavepoint | Commit
  | DeleteSmallFinds | DeletePhotos | DeleteCollectedMaterial

type_synonym logging_entry = "string \<times> string \<times> nat list"

definition import_rliim_cm_for_new_loci ::
  "(db_call \<Rightarrow> bool) \<Rightarrow> nat \<Rightarrow> nat \<Rightarrow> bool \<Rightarrow> 'a db_scheme
     \<Rightarrow> bool \<times> 'a db_scheme \<times> logging_entry list" where
  "import_rliim_cm_for_new_loci fails now now_eastern commit d =
     (if fails BeginSavepoint
      then (False, d, [(''error'', ''Exception when beginning savepoint'', [])])
      else if fails GetRecords then (False, d, [(''error'', ''{repr(e)}'', [])])
      else if fails ExecuteInsert then (False, d, [(''error'', ''{repr(e)}'', [])])
      else (case sql_insert now now_eastern d of
              (d1, row_count) \<Rightarrow>
                (let l1 = (if row_count \<noteq> 0
                           then [(''info'', ''Import of {row_count} collected materials successful'', [row_count])]
                           else [(''info'', ''Note that no new collected materials were added.'', [])])
                 in if fails ExecuteAddSmallFinds then (False, d, l1 @ [(''error'', ''{repr(e)}'', [])])
                    else (case sql_add_small_finds now now_eastern d1 of
                            (d2, row_count2) \<Rightarrow>
                              (let l2 = l1 @ (if row_count2 \<noteq> 0
                                              then [(''info'', ''Import successful: Added {row_count} small find records'', [row_count2])]
                                              else [(''info'', ''Import successful.'', [])])
                               in if fails CommitSavepoint \<or> (commit \<and> fails Commit)
                                  then (False, d, l2 @ [(''error'', ''{repr(e)}'', [])])
                                  else (True, d2, l2))))))"

section \<open>Erasing a former import\<close>

definition tagged_uids :: "'a db_scheme \<Rightarrow> nat list" where
  \<comment> \<open>\<open>select uid from collected_material where dearregistrar = 'imported by rliim kiosk bridge'\<close>\<close>
  "tagged_uids d =
     map cm_uid (filter (\<lambda>c. cm_dearregistrar c = Some import_marker) (collected_material d))"

fun in_uids :: "nat option \<Rightarrow> nat list \<Rightarrow> bool" where
  \<comment> \<open>\<open>uid_cm in (subquery)\<close>: never true for a null \<open>uid_cm\<close>\<close>
  "in_uids None us = False"
| "in_uids (Some u) us = (u \<in> set us)"

definition erase_former_import ::
  "(db_call \<Rightarrow> bool) \<Rightarrow> 'a db_scheme \<Rightarrow> bool \<times> 'a db_scheme \<times> log_entry list" where
  "erase_former_import fails d =
     (if fails DeleteSmallFinds \<or> fails DeletePhotos \<or> fails DeleteCollectedMaterial \<or> fails Commit
      then (False, d, log ''ERROR IN ease_former_input: {repr(e)}'' [] ERROR)
      else (let d1 = d\<lparr>small_find :=
                         filter (\<lambda>f. \<not> in_uids (find_uid_cm f) (tagged_uids d)) (small_find d)\<rparr>;
                d2 = d1\<lparr>collected_material_photo :=
                          filter (\<lambda>p. \<not> in_uids (photo_uid_cm p) (tagged_uids d1))
                            (collected_material_photo d1)\<rparr>;
                d3 = d2\<lparr>collected_material :=
                          filter (\<lambda>c. cm_dearregistrar c \<noteq> Some import_marker)
                            (collected_material d2)\<rparr>
            in (True, d3, log ''Successfully erased former import.'' [] INFO)))"


section \<open>Example inputs\<close>

definition first_number :: "string \<Rightarrow> int" where
  \<comment> \<open>stands in for \<open>force_positive_int_from_string\<close> in the examples: the first run
      of digits, \<open>- 1\<close> when there is none\<close>
  "first_number s =
     (case takeWhile is_digit (dropWhile (\<lambda>c. \<not> is_digit c) s) of
        [] \<Rightarrow> - 1
      | d # ds \<Rightarrow> int (digits_value (d # ds)))"

definition example_env :: env where
  "example_env =
     \<lparr> force_positive_int_from_string = first_number,
       str_float = (\<lambda>r. ''0.0''),
       str_datetime = (\<lambda>d. ''2025-01-01 00:00:00''),
       insert_error = (\<lambda>r. False),
       update_error = (\<lambda>p. False) \<rparr>"

definition example_lot_row :: row where
  \<comment> \<open>the Lots row of the end-to-end scenario\<close>
  "example_lot_row =
     [CInt 5, CStr ''A123'', CStr ''A'', CStr ''ceramic'', CNone, CNone, CNone, CInt 3, CNone,
      CBool True]"

definition example_lot_record :: staging where
  "example_lot_record =
     \<lparr> line_ref = 2, cm_type = ''bulk'', lot = ''5'', locus = ''A-123'', unit = ''A'',
       arch_domain = None, arch_context = ''A-123-5'', local_nr = 5,
       lot_type = CStr ''ceramic'', date_excavated = None, date_entered = None,
       photographed = True, description = CNone, count = CInt 3, location = CNone,
       sf_type = CNone, sf_measures = None, sf_length_mm = None, sf_height_mm = None,
       sf_width_mm = None, sf_thickness_mm = None, sf_diameter_mm = None,
       sf_diameter_perf_mm = None, sf_weight = None, sf_description = CNone,
       sf_date_excavated = None, sf_date_entered = None, sf_photographed = None \<rparr>"

definition example_sample_row :: row where
  "example_sample_row =
     [CStr ''S5'', CStr ''A123'', CStr ''A'', CStr ''soil'', CStr ''dark'', CDateTime 7,
      CStr ''wet'', CStr ''box 1'']"

definition example_sample_record :: staging where
  "example_sample_record =
     \<lparr> line_ref = 2, cm_type = ''sample'', lot = ''S5'', locus = ''A-123'', unit = ''A'',
       arch_domain = Some ''S'', arch_context = ''A-123-S5'', local_nr = 5,
       lot_type = CStr ''soil'', date_excavated = Some 7, date_entered = Some 7,
       photographed = False, description = CStr ''dark wet'', count = CNone,
       location = CStr ''box 1'',
       sf_type = CNone, sf_measures = None, sf_length_mm = None, sf_height_mm = None,
       sf_width_mm = None, sf_thickness_mm = None, sf_diameter_mm = None,
       sf_diameter_perf_mm = None, sf_weight = None, sf_description = CNone,
       sf_date_excavated = None, sf_date_entered = None, sf_photographed = None \<rparr>"

definition example_artifact_row :: "string \<Rightarrow> row" where
  \<comment> \<open>an Artifacts row for lot 5 with the given weight cell\<close>
  "example_artifact_row weight =
     [CInt 5, CStr ''A123'', CStr ''A'', CStr ''bead'', CNone, CStr ''L:15mm;W:10mm'',
      CStr weight, CStr ''blue'', CNone, CNone]"

definition example_workbook :: workbook where
  \<comment> \<open>the first header cell of Lots is wrong; Samples and Artifacts have no data rows\<close>
  "example_workbook =
     [(''Lots'', [map CStr (''lot no'' # tl expected_cols_lots), example_lot_row]),
      (''Samples'', [map CStr expected_cols_samples]),
      (''Artifacts'', [map CStr expected_cols_artifacts])]"

definition example_cm :: "nat \<Rightarrow> string option \<Rightarrow> collected_material_row" where
  \<comment> \<open>a production row with the given uid and \<open>dearregistrar\<close>\<close>
  "example_cm u tag =
     \<lparr> cm_uid = u, cm_uid_locus = None, cm_material_type = CNone, cm_description = [],
       cm_quantity = CNone, cm_isobject = None, cm_date = None, cm_storage = CNone,
       cm_status_todo = None, cm_status_done = None, cm_dearregistrar = tag,
       cm_created = None, cm_modified = None, cm_modified_tz = None, cm_modified_ww = None,
       cm_modified_by = None, cm_arch_domain = None, cm_arch_context = None,
       cm_cm_type = None \<rparr>"

definition example_find :: "nat \<Rightarrow> nat option \<Rightarrow> small_find_row" where
  "example_find u c =
     \<lparr> find_uid = u, find_uid_cm = c, find_material = CNone, find_length = None,
       find_width = None, find_thickness = None, find_weight = None, find_height = None,
       find_diameter = None, find_id_registrar = None, find_created = None,
       find_modified = None, find_modified_tz = None, find_modified_ww = None,
       find_modified_by = None \<rparr>"

definition example_db :: db where
  \<comment> \<open>one imported and one other collected material, each with a small find and a photo\<close>
  "example_db =
     \<lparr> rliim_cm_import = [example_lot_record],
       locus_table = [\<lparr>locus_uid = 10, locus_arch_context = Some ''A-123''\<rparr>],
       collected_material = [example_cm 1 (Some import_marker), example_cm 2 None],
       small_find = [example_find 3 (Some 1), example_find 4 (Some 2)],
       collected_material_photo =
         [\<lparr>photo_uid = 5, photo_uid_cm = Some 1\<rparr>, \<lparr>photo_uid = 6, photo_uid_cm = Some 2\<rparr>],
       next_uid = 100 \<rparr>"

definition example_merge_db :: db where
  \<comment> \<open>staging holds lot 5 as a small find and sample S5; production knows locus A-123\<close>
  "example_merge_db =
     \<lparr> rliim_cm_import = [example_lot_record\<lparr>cm_type := ''small_find''\<rparr>, example_sample_record],
       locus_table = [\<lparr>locus_uid = 10, locus_arch_context = Some ''A-123''\<rparr>],
       collected_material = [],
       small_find = [],
       collected_material_photo = [],
       next_uid = 100 \<rparr>"

definition never_fails :: "db_call \<Rightarrow> bool" where
  \<comment> \<open>every database call succeeds\<close>
  "never_fails c = False"

definition example_duplicate_sheet :: worksheet where
  \<comment> \<open>a Lots sheet in which lot 5 comes twice and lot 6 once\<close>
  "example_duplicate_sheet =
     [map CStr expected_cols_lots,
      example_lot_row,
      [CInt 6, CStr ''B007'', CStr ''B'', CStr ''bone''],
      [CStr ''5'', CStr ''A123'', CStr ''A'', CStr ''glass'']]"

section \<open>Decimal text of an integer\<close>

lemma digit_char_digit: "k < 10 \<Longrightarrow> is_digit (digit_char k) \<and> digit_val (digit_char k) = k"
  by (simp add: is_digit_def digit_val_def digit_char_def Let_def)

lemma str_nat_digits: "list_all is_digit (str_nat n) \<and> str_nat n \<noteq> []"
proof (induction n rule: str_nat.induct)
  case (1 n)
  show ?case
  proof (cases "n < 10")
    case True
    then show ?thesis
      by (subst (1 2) str_nat.simps) (simp add: digit_char_digit)
  next
    case False
    with 1 show ?thesis
      by (subst (1 2) str_nat.simps) (simp add: digit_char_digit)
  qed
qed

lemma py_digits_all_digits:
  "list_all is_digit ds \<Longrightarrow> ds \<noteq> [] \<Longrightarrow>
     py_digits acc ds = Some (foldl (\<lambda>a c. a * 10 + digit_val c) acc ds)"
  by (induction acc ds rule: py_digits.induct) auto

lemma str_nat_value: "foldl (\<lambda>a c. a * 10 + digit_val c) 0 (str_nat n) = n"
proof (induction n rule: str_nat.induct)
  case (1 n)
  show ?case
  proof (cases "n < 10")
    case True
    then show ?thesis
      by (subst str_nat.simps) (simp add: digit_char_digit)
  next
    case False
    with 1 show ?thesis
      by (subst str_nat.simps) (simp add: digit_char_digit)
  qed
qed

lemma strip_no_space: "\<forall>c\<in>set s. \<not> is_space c \<Longrightarrow> strip s = s"
proof -
  assume a: "\<forall>c\<in>set s. \<not> is_space c"
  then have "dropWhile is_space s = s"
    by (cases s) auto
  moreover from a have "dropWhile is_space (rev s) = rev s"
    by (cases "rev s") (auto simp: rev_eq_Cons_iff)
  ultimately show ?thesis
    by (simp add: strip_def)
qed

lemma digit_facts: "is_digit c \<Longrightarrow> \<not> is_space c \<and> c \<noteq> CHR ''-'' \<and> c \<noteq> CHR ''+''"
  by (auto simp: is_digit_def is_space_def Let_def)

lemma parse_str_nat: "py_int_str (str_nat n) = Some (int n)"
proof -
  from str_nat_digits [of n] obtain d ds where ds: "str_nat n = d # ds" "is_digit d"
    "list_all is_digit (d # ds)"
    by (cases "str_nat n") auto
  then have "\<forall>c\<in>set (str_nat n). \<not> is_space c"
    using digit_facts by (auto simp: list_all_iff)
  then have "strip (str_nat n) = d # ds"
    using ds(1) strip_no_space by metis
  moreover have "parse_digits (d # ds) = Some n"
    using ds py_digits_all_digits [of "d # ds" 0] str_nat_value [of n]
    by (simp add: parse_digits_def)
  ultimately show ?thesis
    using ds(2) digit_facts [of d] by (simp add: py_int_str_def)
qed

lemma parse_str_int: "py_int (CStr (str_int i)) = Some i"
proof (cases "i < 0")
  case False
  then show ?thesis
    using parse_str_nat [of "nat i"] by (simp add: str_int_def)
next
  case True
  from str_nat_digits [of "nat (- i)"] obtain d ds where ds: "str_nat (nat (- i)) = d # ds"
    "is_digit d" "list_all is_digit (d # ds)"
    by (cases "str_nat (nat (- i))") auto
  then have "\<forall>c\<in>set (CHR ''-'' # str_nat (nat (- i))). \<not> is_space c"
    using digit_facts by (auto simp: list_all_iff is_space_def)
  then have "strip (CHR ''-'' # str_nat (nat (- i))) = CHR ''-'' # d # ds"
    using ds(1) strip_no_space by metis
  moreover have "parse_digits (d # ds) = Some (nat (- i))"
    using ds py_digits_all_digits [of "d # ds" 0] str_nat_value [of "nat (- i)"]
    by (simp add: parse_digits_def)
  ultimately show ?thesis
    using True by (simp add: py_int_str_def str_int_def)
qed

lemma str_int_inject: "str_int i = str_int j \<longleftrightarrow> i = j"
proof
  assume "str_int i = str_int j"
  then have "py_int (CStr (str_int i)) = py_int (CStr (str_int j))"
    by (simp only:)
  then show "i = j"
    by (simp only: parse_str_int option.inject)
qed simp

section \<open>Facts about the row normalizers\<close>

lemma then_row_Accepted:
  "then_row m f = (l, Accepted r) \<longleftrightarrow>
     (\<exists>l1 x l2. m = (l1, Accepted x) \<and> f x = (l2, Accepted r) \<and> l = l1 @ l2)"
  by (cases m; cases "snd m") (auto simp: then_row_def split: prod.splits)

lemma read_lot_number_Accepted:
  "read_lot_number row_nr row = (l, Accepted n) \<longleftrightarrow>
     (row \<noteq> [] \<and> \<not> first_cell_empty (row ! 0) \<and> py_int (row ! 0) = Some n \<and> 0 < n \<and> l = [])"
  by (cases row) (auto simp: read_lot_number_def split: option.splits)

lemma check_context_trench_Accepted:
  "check_context_trench row_nr lot_nr row = (l, Accepted (c, t)) \<Longrightarrow>
     2 < length row \<and> (\<exists>s. row ! 1 = CStr s \<and> c = strip s) \<and> re_context c
     \<and> (\<exists>s. row ! 2 = CStr s \<and> t = strip s) \<and> re_trench t"
  by (auto simp: check_context_trench_def Let_def split: option.splits if_splits cell.splits)

lemma lot_row_Accepted:
  assumes "lot_row row_nr row = (l, Accepted r)"
  shows "\<exists>lot_nr context trench l1 l2.
           read_lot_number row_nr row = (l1, Accepted lot_nr)
         \<and> check_context_trench row_nr (CInt lot_nr) row = (l2, Accepted (context, trench))
         \<and> lot r = str_int lot_nr
         \<and> locus r = take 1 context @ ''-'' @ drop 1 context
         \<and> arch_context r = (take 1 context @ ''-'' @ drop 1 context) @ ''-'' @ str_int lot_nr
         \<and> unit r = trench
         \<and> photographed r = truthy (get_or row 7)"
  using assms
  by (clarsimp simp: lot_row_def lot_fields_def then_row_Accepted case_prod_beta)

lemma sample_row_Accepted:
  assumes "sample_row e row_nr row = (l, Accepted r)"
  shows "\<exists>lot_nr n context trench l1 l2.
           read_sample_number row_nr row = (l1, Accepted (lot_nr, n))
         \<and> check_context_trench row_nr (CStr lot_nr) row = (l2, Accepted (context, trench))
         \<and> lot r = lot_nr
         \<and> photographed r = False \<and> count r = CNone
         \<and> date_excavated r = snd (read_date row_nr (CStr lot_nr) row 5 ''excavated'' True)
         \<and> date_entered r = date_excavated r"
  using assms
  by (clarsimp simp: sample_row_def sample_fields_def then_row_Accepted case_prod_beta)

lemma read_date_value:
  "snd (read_date row_nr lot_nr row i what w) =
     (if i < length row then (case row ! i of CDateTime d \<Rightarrow> Some d | _ \<Rightarrow> None) else None)"
  by (auto simp: read_date_def get_or_def Let_def split: cell.splits)

lemma example_lot_row_accepted:
  "lot_row 2 example_lot_row =
     ([(1, ''Line {row_nr}, LOT# {lot_nr}:: Date excavated is empty.'', [CInt 2, CInt 5])],
      Accepted example_lot_record)"
  by code_simp

lemma example_sample_row_accepted:
  "sample_row example_env 2 example_sample_row = ([], Accepted example_sample_record)"
  by code_simp

lemma digit_not_space: "is_digit c \<Longrightarrow> \<not> is_space c"
  by (auto simp: is_digit_def is_space_def Let_def)

lemma strip_context:
  "\<not> is_space X \<Longrightarrow> is_digit d3 \<Longrightarrow> strip [X, d1, d2, d3] = [X, d1, d2, d3]"
  by (simp add: strip_def digit_not_space)

lemma get_or_update: "i \<noteq> j \<Longrightarrow> get_or (row[j := v]) i = get_or row i"
  by (simp add: get_or_def)

lemma read_lot_number_update:
  "0 < j \<Longrightarrow> read_lot_number row_nr (row[j := v]) = read_lot_number row_nr row"
  by (cases row; cases j) (simp_all add: read_lot_number_def)

lemma check_context_trench_update:
  "2 < j \<Longrightarrow> check_context_trench row_nr lot_nr (row[j := v]) = check_context_trench row_nr lot_nr row"
  by (simp add: check_context_trench_def split: option.splits cell.splits)

lemma read_type_update:
  "j \<noteq> 3 \<Longrightarrow> read_type row_nr lot_nr (row[j := v]) = read_type row_nr lot_nr row"
  by (simp add: read_type_def)

lemma read_date_update:
  "i \<noteq> j \<Longrightarrow> read_date row_nr lot_nr (row[j := v]) i what w = read_date row_nr lot_nr row i what w"
  by (simp add: read_date_def get_or_update)

lemma read_sherd_count_update:
  "j \<noteq> 7 \<Longrightarrow> read_sherd_count row_nr lot_nr (row[j := v]) t = read_sherd_count row_nr lot_nr row t"
  by (simp add: read_sherd_count_def get_or_update)

section \<open>Derived keys of a lot row\<close>

text \<open>
  C3: for every accepted row of the Lots sheet whose context cell is a trench letter \<open>X\<close>
  followed by three digits and whose lot number reads as the integer \<open>N\<close>, \<open>N\<close> is positive,
  the locus of the staging record is \<open>X-###\<close> and its arch_context is \<open>X-###-N\<close>, with \<open>N\<close>
  in decimal.
\<close>

theorem lot_row_arch_context:
  assumes "lot_row row_nr row = (l, Accepted r)"
    and "row ! 1 = CStr [X, d1, d2, d3]"
    and "X \<in> set ''ABCD''" and "is_digit d1" and "is_digit d2" and "is_digit d3"
    and "py_int (row ! 0) = Some N"
  shows "0 < N \<and> locus r = [X, CHR ''-'', d1, d2, d3]
         \<and> arch_context r = [X, CHR ''-'', d1, d2, d3] @ ''-'' @ str_int N"
proof -
  from assms(1) obtain lot_nr "context" trench l1 l2 where
    a: "read_lot_number row_nr row = (l1, Accepted lot_nr)"
    and b: "check_context_trench row_nr (CInt lot_nr) row = (l2, Accepted (context, trench))"
    and c: "locus r = take 1 context @ ''-'' @ drop 1 context"
    and d: "arch_context r = (take 1 context @ ''-'' @ drop 1 context) @ ''-'' @ str_int lot_nr"
    using lot_row_Accepted by blast
  from a assms(7) have n: "lot_nr = N" "0 < N"
    by (simp_all add: read_lot_number_Accepted)
  from assms(3) have "\<not> is_space X"
    by (auto simp: is_space_def)
  with b assms(2,6) have "context = [X, d1, d2, d3]"
    by (auto dest!: check_context_trench_Accepted simp: strip_context)
  with c d n show ?thesis by simp
qed

theorem lot_row_arch_context_witness:
  "lot_row 2 example_lot_row =
     ([(1, ''Line {row_nr}, LOT# {lot_nr}:: Date excavated is empty.'', [CInt 2, CInt 5])],
      Accepted example_lot_record)
   \<and> example_lot_row ! 1 = CStr ''A123'' \<and> py_int (example_lot_row ! 0) = Some 5
   \<and> locus example_lot_record = ''A-123'' \<and> arch_context example_lot_record = ''A-123-5''"
proof -
  have h2: "example_lot_row ! 1 = CStr [CHR ''A'', CHR ''1'', CHR ''2'', CHR ''3'']"
    by (simp add: example_lot_row_def)
  have h3: "CHR ''A'' \<in> set ''ABCD''" by simp
  have h4: "is_digit CHR ''1''" "is_digit CHR ''2''" "is_digit CHR ''3''"
    by (simp_all add: is_digit_def)
  have h7: "py_int (example_lot_row ! 0) = Some 5"
    by (simp add: example_lot_row_def)
  have s: "str_int 5 = ''5''" by code_simp
  from lot_row_arch_context [OF example_lot_row_accepted h2 h3 h4 h7] h2 h7 s
    example_lot_row_accepted
  show ?thesis by simp
qed

section \<open>The photographed flag of a lot row\<close>

text \<open>
  C9: for every accepted row of the Lots sheet the photographed flag of the staging record
  is true exactly when the cell at index 7 (total number of sherds) exists and is truthy;
  and whatever stands in the cell at index 9 (photographed), the result of the row is the
  same.
\<close>

theorem lot_row_photographed:
  "(lot_row row_nr row = (l, Accepted r) \<longrightarrow>
      photographed r = (7 < length row \<and> truthy (row ! 7)))
   \<and> lot_row row_nr (row[9 := v]) = lot_row row_nr row"
proof
  show "lot_row row_nr row = (l, Accepted r) \<longrightarrow>
          photographed r = (7 < length row \<and> truthy (row ! 7))"
  proof
    assume "lot_row row_nr row = (l, Accepted r)"
    then have "photographed r = truthy (get_or row 7)"
      using lot_row_Accepted by blast
    then show "photographed r = (7 < length row \<and> truthy (row ! 7))"
      by (simp add: get_or_def)
  qed
next
  show "lot_row row_nr (row[9 := v]) = lot_row row_nr row"
    by (simp add: lot_row_def lot_fields_def read_lot_number_update check_context_trench_update
        read_type_update read_date_update read_sherd_count_update get_or_update)
qed

theorem lot_row_photographed_witness:
  "lot_row 2 example_lot_row =
     ([(1, ''Line {row_nr}, LOT# {lot_nr}:: Date excavated is empty.'', [CInt 2, CInt 5])],
      Accepted example_lot_record)
   \<and> photographed example_lot_record = (7 < length example_lot_row \<and> truthy (example_lot_row ! 7))
   \<and> lot_row 2 (example_lot_row[9 := CBool False]) = lot_row 2 example_lot_row"
  using lot_row_photographed [of 2 example_lot_row _ example_lot_record "CBool False"]
    example_lot_row_accepted
  by simp

section \<open>The fixed fields of a sample row\<close>

text \<open>
  C10: every staging record that the Samples pass builds has photographed false, no count,
  and date_entered equal to date_excavated, which is the value of the date column (index 5)
  when that is a datetime and null otherwise.
\<close>

theorem sample_row_fixed_fields:
  assumes "sample_row e row_nr row = (l, Accepted r)"
  shows "photographed r = False \<and> count r = CNone \<and> date_entered r = date_excavated r
         \<and> date_excavated r =
             (if 5 < length row then (case row ! 5 of CDateTime d \<Rightarrow> Some d | _ \<Rightarrow> None)
              else None)"
  using sample_row_Accepted [OF assms] by (auto simp: read_date_value)

theorem sample_row_fixed_fields_witness:
  "sample_row example_env 2 example_sample_row = ([], Accepted example_sample_record)
   \<and> photographed example_sample_record = False \<and> count example_sample_record = CNone
   \<and> date_entered example_sample_record = Some 7
   \<and> date_excavated example_sample_record = Some 7
   \<and> example_sample_row ! 5 = CDateTime 7"
  using sample_row_fixed_fields [OF example_sample_row_accepted] example_sample_row_accepted
  by (simp add: example_sample_row_def)

section \<open>Measurement tokens and the weight cell\<close>

lemma token_parts:
  "split_on CHR '':'' ''L:15mm'' = [''L'', ''15mm'']"
  "split_on CHR '':'' ''W:10mm'' = [''W'', ''10mm'']"
  "split_on CHR '':'' ''L:20mm'' = [''L'', ''20mm'']"
  "split_on CHR '':'' ''foo:bar'' = [''foo'', ''bar'']"
  "split_on CHR '':'' ''weight: 2.5kg'' = [''weight'', '' 2.5kg'']"
  by code_simp+

lemma token_keys_values:
  "lower (strip ''L'') = ''l''" "lower (strip ''W'') = ''w''" "lower (strip ''foo'') = ''foo''"
  "lower (strip ''weight'') = ''weight''"
  "lower (strip ''15mm'') = ''15mm''" "lower (strip ''10mm'') = ''10mm''"
  "lower (strip ''20mm'') = ''20mm''" "lower (strip '' 2.5kg'') = ''2.5kg''"
  by code_simp+

lemma token_measure_keys:
  "measure_key ''l'' = Some ''l''" "measure_key ''w'' = Some ''w''" "measure_key ''foo'' = None"
  "measure_key ''weight'' = Some ''weight''"
  by code_simp+

lemma token_units:
  "contains ''mm'' ''15mm''" "contains ''mm'' ''10mm''" "contains ''mm'' ''20mm''"
  "\<not> contains ''mm'' ''2.5kg''" "\<not> contains ''cm'' ''2.5kg''" "\<not> contains '' m'' ''2.5kg''"
  "contains ''g'' ''2.5kg''"
  by code_simp+

lemmas token_facts = token_parts token_keys_values token_measure_keys token_units

lemma token_L15:
  "force_positive_int_from_string e ''L:15mm'' \<noteq> - 1 \<Longrightarrow>
     interpret_measure_token e ''L:15mm'' = (''l'', ''15mm'')"
  by (simp add: interpret_measure_token_def token_facts)

lemma token_W10:
  "force_positive_int_from_string e ''W:10mm'' \<noteq> - 1 \<Longrightarrow>
     interpret_measure_token e ''W:10mm'' = (''w'', ''10mm'')"
  by (simp add: interpret_measure_token_def token_facts)

lemma token_L20:
  "force_positive_int_from_string e ''L:20mm'' \<noteq> - 1 \<Longrightarrow>
     interpret_measure_token e ''L:20mm'' = (''l'', ''20mm'')"
  by (simp add: interpret_measure_token_def token_facts)

lemma token_weight:
  "force_positive_int_from_string e ''weight: 2.5kg'' \<noteq> - 1 \<Longrightarrow>
     interpret_measure_token e ''weight: 2.5kg'' = (''weight'', ''2.5kg'')"
  by (simp add: interpret_measure_token_def token_facts)

lemma token_foo: "interpret_measure_token e ''foo:bar'' = (''error'', ''unclear dimension foo'')"
  by (simp add: interpret_measure_token_def token_facts)

lemma measures_split:
  "split_on CHR '';'' (replace_char CHR '','' CHR '';'' ''L:15mm;W:10mm'') = [''L:15mm'', ''W:10mm'']"
  "split_on CHR '';'' (replace_char CHR '','' CHR '';'' ''L:15mm;L:20mm'') = [''L:15mm'', ''L:20mm'']"
  "replace_char CHR '','' CHR '';'' ''L:15mm;W:10mm'' = ''L:15mm;W:10mm''"
  "replace_char CHR '','' CHR '';'' ''L:15mm;L:20mm'' = ''L:15mm;L:20mm''"
  by code_simp+

lemma example_first_numbers:
  "force_positive_int_from_string example_env ''L:15mm'' = 15"
  "force_positive_int_from_string example_env ''W:10mm'' = 10"
  "force_positive_int_from_string example_env ''L:20mm'' = 20"
  "force_positive_int_from_string example_env ''weight: 2.5kg'' = 2"
  "force_positive_int_from_string example_env ''2.5kg'' = 2"
  by code_simp+

text \<open>
  C5: when the helper finds a number in each token, "L:15mm;W:10mm" gives length 15mm and
  width 10mm; "L:15mm;L:20mm" keeps the first length and logs that the key came twice;
  "foo:bar" is an error token. The weight cell "2.5kg" passes the token check, and the
  value stored as sf_weight is what \<open>force_positive_int_from_string\<close> reads from the raw
  text "2.5kg"; \<open>get_grams\<close>, which gives 2500 for it, is not called.
\<close>

theorem measurement_tokens:
  assumes "force_positive_int_from_string e ''L:15mm'' \<noteq> - 1"
    and "force_positive_int_from_string e ''W:10mm'' \<noteq> - 1"
    and "force_positive_int_from_string e ''L:20mm'' \<noteq> - 1"
    and "force_positive_int_from_string e ''weight: 2.5kg'' \<noteq> - 1"
  shows "artifact_measures e row_nr lot_nr (CStr ''L:15mm;W:10mm'') =
           ([], Accepted (Some ''L:15mm;W:10mm'',
                  no_dims\<lparr>d_length := Some ''15mm'', d_width := Some ''10mm''\<rparr>))
       \<and> artifact_measures e row_nr lot_nr (CStr ''L:15mm;L:20mm'') =
           (twice row_nr lot_nr ''l'',
            Accepted (Some ''L:15mm;L:20mm'', no_dims\<lparr>d_length := Some ''15mm''\<rparr>))
       \<and> interpret_measure_token e ''foo:bar'' = (''error'', ''unclear dimension foo'')
       \<and> artifact_weight e row_nr lot_nr (CStr ''2.5kg'') =
           ([], Accepted (Some (force_positive_int_from_string e ''2.5kg'')))
       \<and> get_grams ''2.5kg'' = Inr 2500"
proof -
  have a: "artifact_measures e row_nr lot_nr (CStr ''L:15mm;W:10mm'') =
           ([], Accepted (Some ''L:15mm;W:10mm'',
                  no_dims\<lparr>d_length := Some ''15mm'', d_width := Some ''10mm''\<rparr>))"
    using assms(1,2)
    by (simp add: artifact_measures_def measures_split store_measure_def token_L15 token_W10
        no_dims_def)
  have b: "artifact_measures e row_nr lot_nr (CStr ''L:15mm;L:20mm'') =
           (twice row_nr lot_nr ''l'',
            Accepted (Some ''L:15mm;L:20mm'', no_dims\<lparr>d_length := Some ''15mm''\<rparr>))"
    using assms(1,3)
    by (simp add: artifact_measures_def measures_split store_measure_def token_L15 token_L20
        no_dims_def)
  have c: "artifact_weight e row_nr lot_nr (CStr ''2.5kg'') =
           ([], Accepted (Some (force_positive_int_from_string e ''2.5kg'')))"
    using assms(4) by (simp add: artifact_weight_def token_weight)
  have d: "get_grams ''2.5kg'' = Inr 2500"
    by code_simp
  from a b c d token_foo show ?thesis by simp
qed

theorem measurement_tokens_witness:
  "force_positive_int_from_string example_env ''L:15mm'' \<noteq> - 1
   \<and> force_positive_int_from_string example_env ''W:10mm'' \<noteq> - 1
   \<and> force_positive_int_from_string example_env ''L:20mm'' \<noteq> - 1
   \<and> force_positive_int_from_string example_env ''weight: 2.5kg'' \<noteq> - 1
   \<and> artifact_measures example_env 2 5 (CStr ''L:15mm;W:10mm'') =
           ([], Accepted (Some ''L:15mm;W:10mm'',
                  no_dims\<lparr>d_length := Some ''15mm'', d_width := Some ''10mm''\<rparr>))
   \<and> artifact_weight example_env 2 5 (CStr ''2.5kg'') = ([], Accepted (Some 2))
   \<and> get_grams ''2.5kg'' = Inr 2500"
proof -
  have h: "force_positive_int_from_string example_env ''L:15mm'' \<noteq> - 1"
    "force_positive_int_from_string example_env ''W:10mm'' \<noteq> - 1"
    "force_positive_int_from_string example_env ''L:20mm'' \<noteq> - 1"
    "force_positive_int_from_string example_env ''weight: 2.5kg'' \<noteq> - 1"
    by (simp_all add: example_first_numbers)
  from measurement_tokens [OF h, of 2 5] h show ?thesis
    by (simp add: example_first_numbers)
qed

section \<open>A weight cell that fails the token check\<close>

lemma artifact_row_Accepted:
  assumes "artifact_row e tbl row_nr row = (l, Accepted p)"
  shows "\<exists>lot_nr lw. artifact_weight e row_nr lot_nr (get_or row 6) = (lw, Accepted (p_sf_weight p))"
  using assms
  by (clarsimp simp: artifact_row_def artifact_fields_def then_row_Accepted case_prod_beta) blast

lemma artifact_weight_error:
  "w \<noteq> [] \<Longrightarrow> fst (interpret_measure_token e (''weight: '' @ w)) = ''error'' \<Longrightarrow>
     snd (artifact_weight e row_nr lot_nr (CStr w)) = Skipped"
  by (cases "interpret_measure_token e (''weight: '' @ w)") (simp add: artifact_weight_def)

lemma update_loop_not_accepted:
  assumes "\<And>p. snd (artifact_row e (table st) (line_nr st + 1) row) \<noteq> Accepted p"
  shows "table (snd (update_loop e max_rows [row] st)) = table st"
proof (cases "artifact_row e (table st) (line_nr st + 1) row")
  case (Pair l res)
  with assms [of "case res of Accepted p \<Rightarrow> p"] show ?thesis
    by (cases res) (simp_all add: Let_def)
qed

text \<open>
  C6: an Artifacts row whose weight cell is a text that fails the token check is never
  accepted: the pass ends in the \<open>continue\<close> after "Value dropped.", no UPDATE is run for
  the row, and the staging table is what it was before the row.
\<close>

theorem artifact_bad_weight_skips_row:
  assumes "6 < length row" and "row ! 6 = CStr w" and "w \<noteq> []"
    and "fst (interpret_measure_token e (''weight: '' @ w)) = ''error''"
  shows "snd (artifact_row e tbl row_nr row) \<noteq> Accepted p
       \<and> table (snd (update_loop e max_rows [row] st)) = table st"
proof -
  have g: "get_or row 6 = CStr w"
    using assms(1-3) by (simp add: get_or_def)
  have no: "snd (artifact_row e tbl' n row) \<noteq> Accepted q" for tbl' n q
  proof
    assume "snd (artifact_row e tbl' n row) = Accepted q"
    then have "artifact_row e tbl' n row = (fst (artifact_row e tbl' n row), Accepted q)"
      by (metis prod.collapse)
    from artifact_row_Accepted [OF this] g
    obtain lot_nr lw where "artifact_weight e n lot_nr (CStr w) = (lw, Accepted (p_sf_weight q))"
      by auto
    with artifact_weight_error [OF assms(3,4), of n lot_nr] show False
      by simp
  qed
  from no update_loop_not_accepted [of e st row max_rows] show ?thesis
    by blast
qed

theorem artifact_bad_weight_skips_row_witness:
  "6 < length (example_artifact_row ''5 lb'') \<and> example_artifact_row ''5 lb'' ! 6 = CStr ''5 lb''
   \<and> fst (interpret_measure_token example_env (''weight: '' @ ''5 lb'')) = ''error''
   \<and> snd (artifact_row example_env [example_lot_record] 2 (example_artifact_row ''5 lb'')) = Skipped
   \<and> table (snd (update_loop example_env (- 1) [example_artifact_row ''5 lb'']
                    (start_state [example_lot_record] []))) = [example_lot_record]"
proof -
  have h1: "6 < length (example_artifact_row ''5 lb'')"
    by (simp add: example_artifact_row_def)
  have h2: "example_artifact_row ''5 lb'' ! 6 = CStr ''5 lb''"
    by (simp add: example_artifact_row_def)
  have h3: "''5 lb'' \<noteq> []" by simp
  have h4: "fst (interpret_measure_token example_env (''weight: '' @ ''5 lb'')) = ''error''"
    by code_simp
  have s: "snd (artifact_row example_env [example_lot_record] 2 (example_artifact_row ''5 lb'')) = Skipped"
    by code_simp
  from artifact_bad_weight_skips_row [OF h1 h2 h3 h4, of _ _ _ "- 1" "start_state [example_lot_record] []"]
    h1 h2 h4 s
  show ?thesis by (simp add: start_state_def)
qed

section \<open>Structural errors of a sheet\<close>

lemma check_sheets_missing:
  "\<exists>sheet\<in>set sheets. map_of wb sheet = None \<Longrightarrow> fst (check_sheets wb sheets lg) = Some KeyError"
proof (induction sheets arbitrary: lg)
  case Nil
  then show ?case by simp
next
  case (Cons sheet sheets)
  show ?case
  proof (cases "map_of wb sheet")
    case None
    then show ?thesis by (simp add: Let_def)
  next
    case (Some ws)
    with Cons.prems have "\<exists>sheet\<in>set sheets. map_of wb sheet = None"
      by auto
    with Some Cons.IH show ?thesis
      by (simp add: Let_def split: prod.splits)
  qed
qed

lemma missing_sheet_stops_import:
  assumes "sheet \<in> set [''Lots'', ''Samples'', ''Artifacts'']" and "map_of wb sheet = None"
  shows "fst (import_workbook e wb tbl lg) = Some KeyError
       \<and> fst (snd (import_workbook e wb tbl lg)) = tbl"
proof -
  define cs where "cs = check_sheets wb [''Lots'', ''Samples'', ''Artifacts'']
          (lg @ log (replicate 80 CHR ''*'') [] SEPARATOR
              @ log ''Workbook {filename}'' [] SEPARATOR
              @ log (replicate 80 CHR ''*'') [] SEPARATOR)"
  have "fst cs = Some KeyError"
    unfolding cs_def using assms by (intro check_sheets_missing) blast
  then obtain lg1 where "cs = (Some KeyError, lg1)"
    by (cases cs) auto
  then show ?thesis
    unfolding import_workbook_def cs_def [symmetric] by simp
qed

lemma example_workbook_run:
  "import_workbook example_env example_workbook [] [] =
(None, [example_lot_record],
  [(- 2, [], []),
   (- 2,
    ''********************************************************************************'',
    []),
   (- 2, [], []),
   (- 2, ''Workbook {filename}'', []),
   (- 2, [], []),
   (- 2,
    ''********************************************************************************'',
    []),
   (2, ''row 1, col {col_idx + 1}: expected {col_name}, got {v}'',
    [CInt 1, CStr ''lot number'', CStr ''lot no'']),
   (2, ''there are structural errors in the worksheet {sheet}: Aborting.'',
    [CStr ''Lots'']),
   (- 1, ''Worksheet structure for sheet {sheet} okay.'',
    [CStr ''Samples'']),
   (- 1, ''Worksheet structure for sheet {sheet} okay.'',
    [CStr ''Artifacts'']),
   (- 1, ''--------------------------------------------'', []),
   (- 1, ''Importing Worksheet Lots:'', []),
   (1, ''Line {row_nr}, LOT# {lot_nr}:: Date excavated is empty.'',
    [CInt 2, CInt 5]),
   (- 1,
    ''Successfully imported {successful_rows} of {row_nr} rows from sheet {sheet}'',
    [CInt 1, CInt 2, CStr ''Lots'']),
   (- 1, ''Importing Worksheet Samples:'', []),
   (- 1,
    ''Successfully imported {successful_rows} of {row_nr} rows from sheet {sheet}'',
    [CInt 0, CInt 1, CStr ''Samples'']),
   (- 1, ''Importing Worksheet Artifacts:'', []),
   (- 1,
    ''Successfully imported {successful_rows} of {row_nr} rows from sheet {sheet}'',
    [CInt 0, CInt 1, CStr ''Artifacts''])])"
  by code_simp

lemma example_workbook_structure:
  "snd (check_structure (the (map_of example_workbook ''Lots'')) expected_cols_lots) = False"
  by code_simp

text \<open>
  C7: in the example workbook the header of the Lots sheet fails the structural check and
  the error is logged with the word "Aborting", yet the rows of the sheet are imported:
  the run ends without an exception and the lot row of the sheet is in the staging table.
\<close>

theorem structural_error_does_not_stop_import:
  "snd (check_structure (the (map_of example_workbook ''Lots'')) expected_cols_lots) = False
   \<and> fst (import_workbook example_env example_workbook [] []) = None
   \<and> fst (snd (import_workbook example_env example_workbook [] [])) = [example_lot_record]
   \<and> (ERROR, ''there are structural errors in the worksheet {sheet}: Aborting.'', [CStr ''Lots''])
       \<in> set (snd (snd (import_workbook example_env example_workbook [] [])))"
  by (simp add: example_workbook_run example_workbook_structure ERROR_def)

section \<open>Rerunning the production merge\<close>

lemma in_select_new_cm:
  "(r, l) \<in> set (select_new_cm d) \<longleftrightarrow>
     r \<in> set (rliim_cm_import d) \<and> l \<in> set (locus_table d)
     \<and> locus_arch_context l = Some (locus r)
     \<and> \<not> (\<exists>c \<in> set (collected_material d). cm_arch_context c = Some (arch_context r))"
  by (auto simp: select_new_cm_def)

lemma in_select_new_small_finds:
  "(r, c) \<in> set (select_new_small_finds d) \<longleftrightarrow>
     r \<in> set (rliim_cm_import d) \<and> c \<in> set (collected_material d)
     \<and> cm_arch_context c = Some (arch_context r) \<and> cm_cm_type c = Some ''small_find''
     \<and> not_in (cm_uid c) (map find_uid_cm (small_find d))"
  by (auto simp: select_new_small_finds_def)

lemma new_cm_contexts:
  "length us = length sel \<Longrightarrow>
     map cm_arch_context (map (\<lambda>(rl, u). new_cm now ne rl u) (zip sel us))
       = map (\<lambda>rl. Some (arch_context (fst rl))) sel"
  by (induction sel us rule: list_induct2') (auto simp: new_cm_def Let_def split: prod.splits)

lemma new_small_find_uids:
  "length us = length sel \<Longrightarrow>
     map find_uid_cm (map (\<lambda>(rc, u). new_small_find now ne rc u) (zip sel us))
       = map (\<lambda>rc. Some (cm_uid (snd rc))) sel"
  by (induction sel us rule: list_induct2') (auto simp: new_small_find_def split: prod.splits)

lemma sql_insert_fields:
  "rliim_cm_import (fst (sql_insert now ne d)) = rliim_cm_import d"
  "locus_table (fst (sql_insert now ne d)) = locus_table d"
  "small_find (fst (sql_insert now ne d)) = small_find d"
  "collected_material_photo (fst (sql_insert now ne d)) = collected_material_photo d"
  "db.more (fst (sql_insert now ne d)) = db.more d"
  "snd (sql_insert now ne d) = length (select_new_cm d)"
  by (simp_all add: sql_insert_def Let_def)

lemma sql_add_small_finds_fields:
  "rliim_cm_import (fst (sql_add_small_finds now ne d)) = rliim_cm_import d"
  "locus_table (fst (sql_add_small_finds now ne d)) = locus_table d"
  "collected_material (fst (sql_add_small_finds now ne d)) = collected_material d"
  "collected_material_photo (fst (sql_add_small_finds now ne d)) = collected_material_photo d"
  "db.more (fst (sql_add_small_finds now ne d)) = db.more d"
  "snd (sql_add_small_finds now ne d) = length (select_new_small_finds d)"
  by (simp_all add: sql_add_small_finds_def Let_def)

lemma select_new_cm_after_insert: "select_new_cm (fst (sql_insert now ne d)) = []"
proof -
  let ?d1 = "fst (sql_insert now ne d)"
  have cm: "map cm_arch_context (collected_material ?d1)
              = map cm_arch_context (collected_material d)
                @ map (\<lambda>rl. Some (arch_context (fst rl))) (select_new_cm d)"
    by (simp add: sql_insert_def Let_def new_cm_contexts del: map_map)
  have "(r, l) \<notin> set (select_new_cm ?d1)" for r l
  proof
    assume a: "(r, l) \<in> set (select_new_cm ?d1)"
    then have r: "r \<in> set (rliim_cm_import d)" "l \<in> set (locus_table d)"
      "locus_arch_context l = Some (locus r)"
      and no: "Some (arch_context r) \<notin> set (map cm_arch_context (collected_material ?d1))"
      by (auto simp: in_select_new_cm sql_insert_fields)
    from no cm have old: "Some (arch_context r) \<notin> set (map cm_arch_context (collected_material d))"
      and new: "Some (arch_context r) \<notin> (\<lambda>rl. Some (arch_context (fst rl))) ` set (select_new_cm d)"
      by auto
    from r old have "(r, l) \<in> set (select_new_cm d)"
      by (auto simp: in_select_new_cm) (metis image_eqI)
    with new show False by force
  qed
  then show ?thesis
    by (cases "select_new_cm ?d1") auto
qed

lemma select_new_cm_small_finds:
  "select_new_cm (fst (sql_add_small_finds now ne d)) = select_new_cm d"
  by (simp add: select_new_cm_def sql_add_small_finds_fields)

lemma select_new_small_finds_after_insert:
  "select_new_small_finds (fst (sql_add_small_finds now ne d)) = []"
proof -
  let ?d1 = "fst (sql_add_small_finds now ne d)"
  have sf: "map find_uid_cm (small_find ?d1)
              = map find_uid_cm (small_find d)
                @ map (\<lambda>rc. Some (cm_uid (snd rc))) (select_new_small_finds d)"
    by (simp add: sql_add_small_finds_def Let_def new_small_find_uids del: map_map)
  have "(r, c) \<notin> set (select_new_small_finds ?d1)" for r c
  proof
    assume a: "(r, c) \<in> set (select_new_small_finds ?d1)"
    then have r: "r \<in> set (rliim_cm_import d)" "c \<in> set (collected_material d)"
      "cm_arch_context c = Some (arch_context r)" "cm_cm_type c = Some ''small_find''"
      and no: "not_in (cm_uid c) (map find_uid_cm (small_find ?d1))"
      by (auto simp: in_select_new_small_finds sql_add_small_finds_fields)
    from no sf have old: "not_in (cm_uid c) (map find_uid_cm (small_find d))"
      and new: "Some (cm_uid c) \<notin> (\<lambda>rc. Some (cm_uid (snd rc))) ` set (select_new_small_finds d)"
      by (auto simp: not_in_def)
    from r old have "(r, c) \<in> set (select_new_small_finds d)"
      by (auto simp: in_select_new_small_finds)
    with new show False by force
  qed
  then show ?thesis
    by (cases "select_new_small_finds ?d1") auto
qed

lemma sql_insert_nothing: "select_new_cm d = [] \<Longrightarrow> sql_insert now ne d = (d, 0)"
  by (simp add: sql_insert_def)

lemma sql_add_small_finds_nothing:
  "select_new_small_finds d = [] \<Longrightarrow> sql_add_small_finds now ne d = (d, 0)"
  by (simp add: sql_add_small_finds_def)

lemma merge_result:
  "import_rliim_cm_for_new_loci fails now ne commit d = (ok, d1, l) \<Longrightarrow>
     (if ok then d1 = fst (sql_add_small_finds now ne (fst (sql_insert now ne d))) else d1 = d)"
  by (auto simp: import_rliim_cm_for_new_loci_def Let_def split: if_splits prod.splits)

text \<open>
  C1: after a successful run of \<open>import_rliim_cm_for_new_loci\<close> the staging and locus tables
  are what they were, and on the database it leaves both insert statements select nothing:
  their row counts are zero and they change nothing, so a second run, whatever its clock
  and whether or not it succeeds, returns the database of the first.
\<close>

theorem merge_idempotent:
  assumes "import_rliim_cm_for_new_loci fails now now_eastern commit d = (True, d1, l1)"
  shows "rliim_cm_import d1 = rliim_cm_import d \<and> locus_table d1 = locus_table d
       \<and> sql_insert now' now_eastern' d1 = (d1, 0)
       \<and> sql_add_small_finds now' now_eastern' d1 = (d1, 0)
       \<and> (import_rliim_cm_for_new_loci fails' now' now_eastern' commit' d1 = (ok, d2, l2)
            \<longrightarrow> d2 = d1)"
proof -
  from merge_result [OF assms]
  have d1: "d1 = fst (sql_add_small_finds now now_eastern (fst (sql_insert now now_eastern d)))"
    by simp
  have a: "select_new_cm d1 = []"
    by (simp add: d1 select_new_cm_small_finds select_new_cm_after_insert)
  have b: "select_new_small_finds d1 = []"
    by (simp add: d1 select_new_small_finds_after_insert)
  have c: "sql_insert now' now_eastern' d1 = (d1, 0)"
    using a by (rule sql_insert_nothing)
  have e: "sql_add_small_finds now' now_eastern' d1 = (d1, 0)"
    using b by (rule sql_add_small_finds_nothing)
  have f: "d2 = d1" if "import_rliim_cm_for_new_loci fails' now' now_eastern' commit' d1 = (ok, d2, l2)"
    using merge_result [OF that] c e by (simp split: if_splits)
  from c e f show ?thesis
    by (simp add: d1 sql_add_small_finds_fields sql_insert_fields)
qed


theorem merge_idempotent_witness:
  "fst (import_rliim_cm_for_new_loci never_fails 1000 995 True example_merge_db) = True
   \<and> map cm_arch_context (collected_material
         (fst (snd (import_rliim_cm_for_new_loci never_fails 1000 995 True example_merge_db))))
       = [Some ''A-123-5'', Some ''A-123-S5'']
   \<and> map find_uid_cm (small_find
         (fst (snd (import_rliim_cm_for_new_loci never_fails 1000 995 True example_merge_db))))
       = [Some 100]
   \<and> fst (snd (import_rliim_cm_for_new_loci never_fails 2000 1995 True
         (fst (snd (import_rliim_cm_for_new_loci never_fails 1000 995 True example_merge_db)))))
       = fst (snd (import_rliim_cm_for_new_loci never_fails 1000 995 True example_merge_db))"
proof -
  let ?R = "import_rliim_cm_for_new_loci never_fails 1000 995 True example_merge_db"
  let ?R2 = "import_rliim_cm_for_new_loci never_fails 2000 1995 True (fst (snd ?R))"
  have ok: "fst ?R = True"
    by code_simp
  have cm: "map cm_arch_context (collected_material (fst (snd ?R)))
              = [Some ''A-123-5'', Some ''A-123-S5'']"
    by code_simp
  have sf: "map find_uid_cm (small_find (fst (snd ?R))) = [Some 100]"
    by code_simp
  have h: "?R = (True, fst (snd ?R), snd (snd ?R))"
    using ok by (metis prod.collapse)
  have h2: "?R2 = (fst ?R2, fst (snd ?R2), snd (snd ?R2))"
    by simp
  from merge_idempotent [OF h, of 2000 1995 never_fails True "fst ?R2" "fst (snd ?R2)" "snd (snd ?R2)"] h2
  have "fst (snd ?R2) = fst (snd ?R)"
    by blast
  with ok cm sf show ?thesis
    by simp
qed

section \<open>What erasing a former import changes\<close>

text \<open>
  C8, as stated, fails: in the example database the photo row of the imported collected
  material is deleted too, a row of a table that is neither small_find nor
  collected_material.
\<close>

theorem erase_former_import_counterexample:
  "collected_material_photo example_db =
     [\<lparr>photo_uid = 5, photo_uid_cm = Some 1\<rparr>, \<lparr>photo_uid = 6, photo_uid_cm = Some 2\<rparr>]
   \<and> fst (erase_former_import never_fails example_db) = True
   \<and> collected_material_photo (fst (snd (erase_former_import never_fails example_db))) =
       [\<lparr>photo_uid = 6, photo_uid_cm = Some 2\<rparr>]"
  by code_simp

text \<open>
  C8, amended: a successful \<open>erase_former_import\<close> deletes exactly the collected_material
  rows tagged with the import marker, and the small_find rows and the
  collected_material_photo rows whose uid_cm is the uid of such a row; the rows it keeps
  stay as they are and in their order, and the staging table, the locus table, the uid
  counter and every other table are unchanged. A failed one changes nothing.
\<close>

theorem erase_former_import_effect:
  assumes "erase_former_import fails d = (ok, d', l)"
  shows "(ok \<longrightarrow>
           collected_material d' =
             filter (\<lambda>c. cm_dearregistrar c \<noteq> Some import_marker) (collected_material d)
         \<and> small_find d' =
             filter (\<lambda>f. \<not> in_uids (find_uid_cm f) (tagged_uids d)) (small_find d)
         \<and> collected_material_photo d' =
             filter (\<lambda>p. \<not> in_uids (photo_uid_cm p) (tagged_uids d)) (collected_material_photo d)
         \<and> rliim_cm_import d' = rliim_cm_import d \<and> locus_table d' = locus_table d
         \<and> next_uid d' = next_uid d \<and> db.more d' = db.more d)
       \<and> (\<not> ok \<longrightarrow> d' = d)"
  using assms
  by (auto simp: erase_former_import_def Let_def tagged_uids_def split: if_splits)

theorem erase_former_import_effect_witness:
  "fst (erase_former_import never_fails example_db) = True
   \<and> map cm_uid (collected_material (fst (snd (erase_former_import never_fails example_db)))) = [2]
   \<and> map find_uid (small_find (fst (snd (erase_former_import never_fails example_db)))) = [4]
   \<and> map photo_uid (collected_material_photo
         (fst (snd (erase_former_import never_fails example_db)))) = [6]
   \<and> rliim_cm_import (fst (snd (erase_former_import never_fails example_db)))
       = rliim_cm_import example_db"
proof -
  let ?R = "erase_former_import never_fails example_db"
  have ok: "fst ?R = True"
    by code_simp
  have h: "?R = (True, fst (snd ?R), snd (snd ?R))"
    using ok by (metis prod.collapse)
  have f: "map cm_uid (filter (\<lambda>c. cm_dearregistrar c \<noteq> Some import_marker)
             (collected_material example_db)) = [2]"
    "map find_uid (filter (\<lambda>f. \<not> in_uids (find_uid_cm f) (tagged_uids example_db))
             (small_find example_db)) = [4]"
    "map photo_uid (filter (\<lambda>p. \<not> in_uids (photo_uid_cm p) (tagged_uids example_db))
             (collected_material_photo example_db)) = [6]"
    by code_simp+
  from erase_former_import_effect [OF h] ok f show ?thesis
    by simp
qed

section \<open>Duplicate lot numbers\<close>

lemma insert_loop_Cons:
  assumes "f (line_nr st + 1) row = (l, res)"
    and "\<not> (m > - 1 \<and> int (line_nr st + 1) = m + 2)"
  shows "insert_loop e f g m (row # rows) st =
     (case res of
        Done \<Rightarrow> (None, st\<lparr>line_nr := line_nr st + 1, log_records := log_records st @ l\<rparr>)
      | Skipped \<Rightarrow>
          insert_loop e f g m rows
            (st\<lparr>line_nr := line_nr st + 1, log_records := log_records st @ l\<rparr>)
      | Raised ex \<Rightarrow>
          (Some (Uncaught ex),
           st\<lparr>line_nr := line_nr st + 1, log_records := log_records st @ l\<rparr>)
      | Accepted r \<Rightarrow>
          (case insert_staging e (table st) r of
             Inr tbl \<Rightarrow>
               insert_loop e f g m rows
                 (st\<lparr>line_nr := line_nr st + 1, table := tbl,
                     log_records := log_records st @ l,
                     successful_rows := successful_rows st + 1\<rparr>)
           | Inl PKeyViolation \<Rightarrow>
               insert_loop e f g m rows
                 (st\<lparr>line_nr := line_nr st + 1,
                     log_records := log_records st @ l
                       @ log ''Line {row_nr}, LOT# {lot_nr}: Duplicate lot number. All lines with this lot number will be skipped.''
                           [CInt (int (line_nr st + 1)), g r] ERROR,
                     to_delete := to_delete st @ [g r]\<rparr>)
           | Inl OtherError \<Rightarrow>
               (Some ReturnedFalse,
                st\<lparr>line_nr := line_nr st + 1,
                    log_records := log_records st @ l
                      @ log ''Line {row_nr}, LOT# {lot_nr}: SQL Error. Aborting.''
                          [CInt (int (line_nr st + 1)), g r] ERROR\<rparr>)))"
  using assms
  by (auto simp: Let_def split: row_result.splits sum.splits db_error.splits)

lemma insert_loop_step:
  assumes "insert_loop e f g m (row # rows) st = (None, st')"
    and "\<not> (m > - 1 \<and> int (line_nr st + 1) = m + 2)"
    and "snd (f (line_nr st + 1) row) \<noteq> Done"
  shows "\<exists>st1. insert_loop e f g m rows st1 = (None, st') \<and> line_nr st1 = line_nr st + 1
           \<and> set (map lot (table st)) \<subseteq> set (map lot (table st1))
           \<and> set (to_delete st) \<subseteq> set (to_delete st1)
           \<and> (\<forall>r. snd (f (line_nr st + 1) row) = Accepted r \<longrightarrow>
                  lot r \<in> set (map lot (table st1)))
           \<and> (\<forall>r. snd (f (line_nr st + 1) row) = Accepted r \<longrightarrow>
                  lot r \<in> set (map lot (table st)) \<longrightarrow> g r \<in> set (to_delete st1))"
proof (cases "f (line_nr st + 1) row")
  case (Pair l res)
  note unfold = insert_loop_Cons [where f = f and g = g and st = st and row = row and e = e
      and rows = rows, OF Pair assms(2)]
  show ?thesis
  proof (cases res)
    case Done
    with Pair assms(3) show ?thesis by simp
  next
    case Skipped
    with assms(1) unfold Pair show ?thesis
      by (intro exI [of _ "st\<lparr>line_nr := line_nr st + 1,
            log_records := log_records st @ l\<rparr>"]) simp
  next
    case (Raised ex)
    with assms(1) unfold show ?thesis
      by simp
  next
    case (Accepted r)
    show ?thesis
    proof (cases "insert_staging e (table st) r")
      case (Inr tbl)
      then have tbl: "tbl = table st @ [r]" "lot r \<notin> set (map lot (table st))"
        by (auto simp: insert_staging_def split: if_splits)
      from Accepted Inr assms(1) unfold
      have "insert_loop e f g m rows
              (st\<lparr>line_nr := line_nr st + 1, table := tbl,
                  log_records := log_records st @ l,
                  successful_rows := successful_rows st + 1\<rparr>) = (None, st')"
        by simp
      with tbl Pair Accepted show ?thesis
        by (intro exI [of _ "st\<lparr>line_nr := line_nr st + 1, table := tbl,
                  log_records := log_records st @ l,
                  successful_rows := successful_rows st + 1\<rparr>"]) auto
    next
      case (Inl err)
      show ?thesis
      proof (cases err)
        case PKeyViolation
        let ?st1 = "st\<lparr>line_nr := line_nr st + 1,
                  log_records := log_records st @ l
                    @ log ''Line {row_nr}, LOT# {lot_nr}: Duplicate lot number. All lines with this lot number will be skipped.''
                        [CInt (int (line_nr st + 1)), g r] ERROR,
                  to_delete := to_delete st @ [g r]\<rparr>"
        from Inl PKeyViolation have present: "lot r \<in> set (map lot (table st))"
          by (auto simp: insert_staging_def split: if_splits)
        from Accepted Inl PKeyViolation assms(1) unfold
        have "insert_loop e f g m rows ?st1 = (None, st')"
          by simp
        with Pair Accepted present show ?thesis
          by (intro exI [of _ ?st1]) auto
      next
        case OtherError
        with Accepted Inl assms(1) unfold show ?thesis
          by simp
      qed
    qed
  qed
qed

lemma insert_loop_mono:
  "insert_loop e f g m rows st = (res, st') \<Longrightarrow>
     set (to_delete st) \<subseteq> set (to_delete st')
     \<and> set (map lot (table st)) \<subseteq> set (map lot (table st'))
     \<and> set (to_delete st') \<subseteq> set (to_delete st) \<union> range g"
proof (induction rows arbitrary: st)
  case Nil
  then show ?case by simp
next
  case (Cons row rows)
  show ?case
  proof (cases "f (line_nr st + 1) row")
    case (Pair l r)
    with Cons.prems show ?thesis
      by (auto simp: Let_def insert_staging_def
          split: if_splits row_result.splits sum.splits db_error.splits
          dest!: Cons.IH; blast)
  qed
qed

lemma insert_loop_dup_later:
  assumes "insert_loop e f g m rows st = (None, st')"
    and "j < length rows"
    and "\<forall>k\<le>j. snd (f (line_nr st + 1 + k) (rows ! k)) \<noteq> Done"
    and "\<forall>k\<le>j. \<not> (m > - 1 \<and> int (line_nr st + 1 + k) = m + 2)"
    and "snd (f (line_nr st + 1 + j) (rows ! j)) = Accepted r"
    and "lot r \<in> set (map lot (table st))"
  shows "g r \<in> set (to_delete st')"
  using assms
proof (induction rows arbitrary: st j)
  case Nil
  then show ?case by simp
next
  case (Cons row rows)
  from Cons.prems(3,4) have a: "snd (f (line_nr st + 1) row) \<noteq> Done"
    "\<not> (m > - 1 \<and> int (line_nr st + 1) = m + 2)"
    by (force dest: spec [of _ 0])+
  from insert_loop_step [OF Cons.prems(1) a(2) a(1)] obtain st1 where
    st1: "insert_loop e f g m rows st1 = (None, st')" "line_nr st1 = line_nr st + 1"
      "set (map lot (table st)) \<subseteq> set (map lot (table st1))"
      "\<forall>r. snd (f (line_nr st + 1) row) = Accepted r \<longrightarrow>
            lot r \<in> set (map lot (table st)) \<longrightarrow> g r \<in> set (to_delete st1)"
    by blast
  show ?case
  proof (cases j)
    case 0
    with Cons.prems(5,6) st1(4) have "g r \<in> set (to_delete st1)"
      by auto
    with insert_loop_mono [OF st1(1)] show ?thesis
      by auto
  next
    case (Suc j')
    have "g r \<in> set (to_delete st')"
    proof (rule Cons.IH [OF st1(1), of j'])
      show "j' < length rows" using Cons.prems(2) Suc by simp
      show "\<forall>k\<le>j'. snd (f (line_nr st1 + 1 + k) (rows ! k)) \<noteq> Done"
        using Cons.prems(3) Suc st1(2) by (auto dest: spec [of _ "Suc _"])
      show "\<forall>k\<le>j'. \<not> (- 1 < m \<and> int (line_nr st1 + 1 + k) = m + 2)"
        using Cons.prems(4) Suc st1(2) by (auto dest: spec [of _ "Suc _"])
      show "snd (f (line_nr st1 + 1 + j') (rows ! j')) = Accepted r"
        using Cons.prems(5) Suc st1(2) by simp
      show "lot r \<in> set (map lot (table st1))"
        using Cons.prems(6) st1(3) by auto
    qed
    then show ?thesis .
  qed
qed

lemma insert_loop_dup:
  assumes "insert_loop e f g m rows st = (None, st')"
    and "i < j" and "j < length rows"
    and "\<forall>k\<le>j. snd (f (line_nr st + 1 + k) (rows ! k)) \<noteq> Done"
    and "\<forall>k\<le>j. \<not> (m > - 1 \<and> int (line_nr st + 1 + k) = m + 2)"
    and "snd (f (line_nr st + 1 + i) (rows ! i)) = Accepted ri"
    and "snd (f (line_nr st + 1 + j) (rows ! j)) = Accepted rj"
    and "lot ri = lot rj"
  shows "g rj \<in> set (to_delete st') \<and> lot ri \<in> set (map lot (table st'))"
  using assms
proof (induction rows arbitrary: st i j)
  case Nil
  then show ?case by simp
next
  case (Cons row rows)
  from Cons.prems(4,5) have a: "snd (f (line_nr st + 1) row) \<noteq> Done"
    "\<not> (m > - 1 \<and> int (line_nr st + 1) = m + 2)"
    by (force dest: spec [of _ 0])+
  from insert_loop_step [OF Cons.prems(1) a(2) a(1)] obtain st1 where
    st1: "insert_loop e f g m rows st1 = (None, st')" "line_nr st1 = line_nr st + 1"
      "\<forall>r. snd (f (line_nr st + 1) row) = Accepted r \<longrightarrow> lot r \<in> set (map lot (table st1))"
    by blast
  from Cons.prems(2) obtain j' where j: "j = Suc j'"
    by (cases j) auto
  have r1: "j' < length rows" using Cons.prems(3) j by simp
  have r2: "\<forall>k\<le>j'. snd (f (line_nr st1 + 1 + k) (rows ! k)) \<noteq> Done"
    using Cons.prems(4) j st1(2) by (auto dest: spec [of _ "Suc _"])
  have r3: "\<forall>k\<le>j'. \<not> (- 1 < m \<and> int (line_nr st1 + 1 + k) = m + 2)"
    using Cons.prems(5) j st1(2) by (auto dest: spec [of _ "Suc _"])
  have r4: "snd (f (line_nr st1 + 1 + j') (rows ! j')) = Accepted rj"
    using Cons.prems(7) j st1(2) by simp
  show ?case
  proof (cases i)
    case 0
    with Cons.prems(6) st1(3) have here: "lot ri \<in> set (map lot (table st1))"
      by auto
    then have "lot rj \<in> set (map lot (table st1))"
      using Cons.prems(8) by simp
    from insert_loop_dup_later [OF st1(1) r1 r2 r3 r4 this]
    have "g rj \<in> set (to_delete st')" .
    moreover from here insert_loop_mono [OF st1(1)]
    have "lot ri \<in> set (map lot (table st'))"
      by blast
    ultimately show ?thesis ..
  next
    case (Suc i')
    have "snd (f (line_nr st1 + 1 + i') (rows ! i')) = Accepted ri"
      using Cons.prems(6) Suc st1(2) by simp
    moreover have "i' < j'" using Cons.prems(2) Suc j by simp
    ultimately show ?thesis
      using Cons.IH [OF st1(1) _ r1 r2 r3 _ r4 Cons.prems(8)] by blast
  qed
qed

lemma insert_loop_not_true:
  "insert_loop e f g m rows st = (Some res, st') \<Longrightarrow> res \<noteq> ReturnedTrue"
proof (induction rows arbitrary: st)
  case Nil
  then show ?case by simp
next
  case (Cons row rows)
  show ?case
  proof (cases "f (line_nr st + 1) row")
    case (Pair l r)
    with Cons.prems show ?thesis
      by (auto simp: Let_def split: if_splits row_result.splits sum.splits db_error.splits
          dest!: Cons.IH)
  qed
qed

text \<open>
  The purge with text parameters, as the Samples pass calls it, deletes the rows of the
  listed lots and counts them.
\<close>

lemma purge_text:
  "purge (map CStr ls) (tbl, n) =
     (None, filter (\<lambda>r. lot r \<notin> set ls) tbl,
      n - (int (length tbl) - int (length (filter (\<lambda>r. lot r \<notin> set ls) tbl))))"
proof (induction ls arbitrary: tbl n)
  case Nil
  then show ?case by simp
next
  case (Cons l ls)
  have "length (filter (\<lambda>r. lot r = l) tbl) + length (filter (\<lambda>r. lot r \<noteq> l) tbl) = length tbl"
    using sum_length_filter_compl [of "\<lambda>r. lot r = l" tbl] by simp
  then have "int (length (filter (\<lambda>r. lot r = l) tbl))
               = int (length tbl) - int (length (filter (\<lambda>r. lot r \<noteq> l) tbl))"
    by linarith
  then show ?case
    by (simp add: Cons.IH delete_where_lot_def)
qed

text \<open>
  The purge with an int parameter first, as the Lots pass calls it, raises at the first
  delete and deletes nothing.
\<close>

lemma purge_int:
  "purge (CInt k # ls) (tbl, n) = (Some UndefinedFunction, tbl, n)"
  by (simp add: delete_where_lot_def)

lemma lot_row_lot_text:
  "lot_row row_nr row = (l, Accepted r) \<Longrightarrow> lot r = str_int (local_nr r)"
  by (clarsimp simp: lot_row_def lot_fields_def then_row_Accepted case_prod_beta)

lemma finish_import_int:
  assumes "to_delete st \<noteq> []" and "set (to_delete st) \<subseteq> range lot_nr_int"
  shows "finish_import sheet st = (Uncaught UndefinedFunction, st)"
proof -
  from assms obtain k ls where "to_delete st = CInt k # ls"
    by (cases "to_delete st") (auto simp: lot_nr_int_def)
  then show ?thesis
    by (simp add: finish_import_def delete_where_lot_def)
qed

lemma import_rows_cases:
  "insert_loop e f g max_rows (drop 1 ws) (start_state tbl lg) = (Some r, st0) \<Longrightarrow>
     import_rows e f g sheet ws max_rows tbl lg = (r, st0)"
  "insert_loop e f g max_rows (drop 1 ws) (start_state tbl lg) = (None, st0) \<Longrightarrow>
     import_rows e f g sheet ws max_rows tbl lg = finish_import sheet st0"
  by (simp_all add: import_rows_def)

text \<open>
  C2: the purge of the Lots pass does not take place. When two rows of the scan (both
  before the first empty first cell and below the row limit, both accepted by the
  normalizer) carry the same lot number, \<open>import_lot_rows\<close> never returns True. When its
  loop comes to its end, the int lot number of the later row is in \<open>to_delete\<close>, the first
  delete of the purge raises the database's error for comparing the VARCHAR column \<open>lot\<close>
  with an int, the call ends with that exception in the state the loop left (no row
  deleted, the count not decremented, no closing log line), and staging still holds a row
  with the duplicated lot number.
\<close>

theorem duplicate_lots_not_purged:
  assumes "i < j" and "j < length (drop 1 ws)"
    and "\<forall>k\<le>j. snd (lot_row (k + 2) (drop 1 ws ! k)) \<noteq> Done"
    and "max_rows > - 1 \<longrightarrow> int j < max_rows"
    and "snd (lot_row (i + 2) (drop 1 ws ! i)) = Accepted ri"
    and "snd (lot_row (j + 2) (drop 1 ws ! j)) = Accepted rj"
    and "local_nr ri = local_nr rj"
  shows "fst (import_lot_rows e ws max_rows tbl lg) \<noteq> ReturnedTrue
       \<and> (\<forall>st0. insert_loop e lot_row lot_nr_int max_rows (drop 1 ws) (start_state tbl lg)
                   = (None, st0) \<longrightarrow>
              CInt (local_nr rj) \<in> set (to_delete st0)
            \<and> import_lot_rows e ws max_rows tbl lg = (Uncaught UndefinedFunction, st0)
            \<and> str_int (local_nr ri) \<in> set (map lot (table st0)))"
proof -
  let ?loop = "insert_loop e lot_row lot_nr_int max_rows (drop 1 ws) (start_state tbl lg)"
  have start: "line_nr (start_state tbl lg) = 1" "to_delete (start_state tbl lg) = []"
    by (simp_all add: start_state_def)
  have texts: "lot ri = str_int (local_nr ri)" "lot rj = str_int (local_nr rj)"
    using assms(5,6) lot_row_lot_text
    by (metis prod.collapse)+
  have ended: "CInt (local_nr rj) \<in> set (to_delete st0)
            \<and> import_lot_rows e ws max_rows tbl lg = (Uncaught UndefinedFunction, st0)
            \<and> str_int (local_nr ri) \<in> set (map lot (table st0))"
    if loop: "?loop = (None, st0)" for st0
  proof -
    have "lot_nr_int rj \<in> set (to_delete st0) \<and> lot ri \<in> set (map lot (table st0))"
    proof (rule insert_loop_dup [OF loop assms(1,2)])
      show "\<forall>k\<le>j. snd (lot_row (line_nr (start_state tbl lg) + 1 + k) (drop 1 ws ! k)) \<noteq> Done"
        using assms(3) by (simp add: start)
      show "\<forall>k\<le>j. \<not> (- 1 < max_rows \<and> int (line_nr (start_state tbl lg) + 1 + k) = max_rows + 2)"
        using assms(4) by (auto simp: start)
      show "snd (lot_row (line_nr (start_state tbl lg) + 1 + i) (drop 1 ws ! i)) = Accepted ri"
        using assms(5) by (simp add: start)
      show "snd (lot_row (line_nr (start_state tbl lg) + 1 + j) (drop 1 ws ! j)) = Accepted rj"
        using assms(6) by (simp add: start)
      show "lot ri = lot rj"
        using texts assms(7) by simp
    qed
    then have key: "CInt (local_nr rj) \<in> set (to_delete st0)"
      and row: "str_int (local_nr ri) \<in> set (map lot (table st0))"
      using texts by (simp_all add: lot_nr_int_def)
    from key have "to_delete st0 \<noteq> []"
      by auto
    moreover from insert_loop_mono [OF loop] have "set (to_delete st0) \<subseteq> range lot_nr_int"
      by (simp add: start)
    ultimately have "finish_import ''Lots'' st0 = (Uncaught UndefinedFunction, st0)"
      by (rule finish_import_int)
    with loop have "import_lot_rows e ws max_rows tbl lg = (Uncaught UndefinedFunction, st0)"
      by (simp add: import_lot_rows_def import_rows_cases)
    with key row show ?thesis
      by simp
  qed
  have "fst (import_lot_rows e ws max_rows tbl lg) \<noteq> ReturnedTrue"
  proof (cases ?loop)
    case (Pair res st0)
    show ?thesis
    proof (cases res)
      case None
      with Pair ended [of st0] show ?thesis
        by simp
    next
      case (Some r)
      with Pair insert_loop_not_true [of e lot_row lot_nr_int max_rows "drop 1 ws"
          "start_state tbl lg" r st0]
      show ?thesis
        by (simp add: import_lot_rows_def import_rows_cases)
    qed
  qed
  with ended show ?thesis
    by blast
qed

theorem duplicate_lots_not_purged_witness:
  "snd (lot_row 2 (drop 1 example_duplicate_sheet ! 0)) = Accepted example_lot_record
   \<and> snd (lot_row 4 (drop 1 example_duplicate_sheet ! 2)) =
        Accepted (example_lot_record\<lparr>line_ref := 4, lot_type := CStr ''glass'',
                    photographed := False, count := CNone\<rparr>)
   \<and> fst (import_lot_rows example_env example_duplicate_sheet (- 1) [] [])
        = Uncaught UndefinedFunction
   \<and> to_delete (snd (import_lot_rows example_env example_duplicate_sheet (- 1) [] []))
        = [CInt 5]
   \<and> map lot (table (snd (import_lot_rows example_env example_duplicate_sheet (- 1) [] [])))
        = [''5'', ''6'']
   \<and> successful_rows (snd (import_lot_rows example_env example_duplicate_sheet (- 1) [] [])) = 2"
proof -
  let ?R = "import_lot_rows example_env example_duplicate_sheet (- 1) [] []"
  let ?L = "insert_loop example_env lot_row lot_nr_int (- 1) (drop 1 example_duplicate_sheet)
              (start_state [] [])"
  let ?rj = "example_lot_record\<lparr>line_ref := 4, lot_type := CStr ''glass'',
                    photographed := False, count := CNone\<rparr>"
  have h1: "(0::nat) < 2"
    by simp
  have h2: "2 < length (drop 1 example_duplicate_sheet)"
    by (simp add: example_duplicate_sheet_def)
  have r0: "snd (lot_row 2 (drop 1 example_duplicate_sheet ! 0)) = Accepted example_lot_record"
    by code_simp
  have r1: "snd (lot_row 3 (drop 1 example_duplicate_sheet ! 1)) \<noteq> Done"
    by code_simp
  have r2: "snd (lot_row 4 (drop 1 example_duplicate_sheet ! 2)) = Accepted ?rj"
    by code_simp
  have h3: "\<forall>k\<le>2. snd (lot_row (k + 2) (drop 1 example_duplicate_sheet ! k)) \<noteq> Done"
  proof (intro allI impI)
    fix k :: nat
    assume "k \<le> 2"
    then consider "k = 0" | "k = 1" | "k = 2"
      by linarith
    then show "snd (lot_row (k + 2) (drop 1 example_duplicate_sheet ! k)) \<noteq> Done"
      using r0 r1 r2 by cases (simp_all add: eval_nat_numeral)
  qed
  have h4: "(- 1 :: int) > - 1 \<longrightarrow> int 2 < - 1"
    by simp
  have h5: "snd (lot_row (0 + 2) (drop 1 example_duplicate_sheet ! 0)) = Accepted example_lot_record"
    using r0 by (simp add: eval_nat_numeral)
  have h6: "snd (lot_row (2 + 2) (drop 1 example_duplicate_sheet ! 2)) = Accepted ?rj"
    using r2 by (simp add: eval_nat_numeral)
  have h7: "local_nr example_lot_record = local_nr ?rj"
    by simp
  have "fst ?L = None"
    by code_simp
  then have loop: "?L = (None, snd ?L)"
    by (metis prod.collapse)
  from duplicate_lots_not_purged [OF h1 h2 h3 h4 h5 h6 h7, of example_env "[]" "[]"] loop
  have run: "?R = (Uncaught UndefinedFunction, snd ?L)"
    by blast
  have d: "to_delete (snd ?L) = [CInt 5]"
    by code_simp
  have l: "map lot (table (snd ?L)) = [''5'', ''6'']"
    by code_simp
  have n: "successful_rows (snd ?L) = 2"
    by code_simp
  from r0 r2 d l n show ?thesis
    unfolding run by simp
qed

section \<open>The context and trench checks\<close>

lemma then_row_snd:
  "snd (then_row m f) =
     (case snd m of Accepted x \<Rightarrow> snd (f x) | Done \<Rightarrow> Done | Skipped \<Rightarrow> Skipped
      | Raised ex \<Rightarrow> Raised ex)"
  by (cases m; cases "snd m") (auto simp: then_row_def split: prod.splits)

lemma then_row_log:
  "set (fst m) \<subseteq> set (fst (then_row m f))"
  "snd m = Accepted x \<Longrightarrow> set (fst (f x)) \<subseteq> set (fst (then_row m f))"
  by (cases m; cases "snd m"; auto simp: then_row_def split: prod.splits)+

lemma strip_last_not_space: "strip s \<noteq> [] \<Longrightarrow> \<not> is_space (last (strip s))"
proof -
  assume a: "strip s \<noteq> []"
  let ?u = "dropWhile is_space (rev (dropWhile is_space s))"
  from a have "?u \<noteq> []" by (simp add: strip_def)
  then have "\<not> is_space (hd ?u)" by (rule hd_dropWhile)
  moreover have "last (strip s) = hd ?u"
    using \<open>?u \<noteq> []\<close> by (simp add: strip_def last_rev)
  ultimately show ?thesis by simp
qed

lemma newline_is_space: "is_space (CHR 0x0A)"
  by (simp add: is_space_def)

lemma re_context_strip:
  assumes "re_context (strip s)"
  shows "\<exists>c d1 d2 d3. strip s = [c, d1, d2, d3] \<and> c \<in> set ''A|BCD''
           \<and> is_digit d1 \<and> is_digit d2 \<and> is_digit d3"
proof -
  have "strip s \<noteq> [] \<Longrightarrow> last (strip s) \<noteq> CHR 0x0A"
    using strip_last_not_space [of s] newline_is_space by metis
  with assms have "length (strip s) = 4 \<and> hd (strip s) \<in> set ''A|BCD''
      \<and> list_all is_digit (tl (strip s))"
    by (auto simp: re_context_def Let_def split: if_splits)
  then show ?thesis
    by (cases "strip s" rule: list.exhaust) (auto simp: length_Suc_conv eval_nat_numeral)
qed

lemma re_context_four:
  "c \<in> set ''A|BCD'' \<Longrightarrow> is_digit d1 \<Longrightarrow> is_digit d2 \<Longrightarrow> is_digit d3 \<Longrightarrow>
     re_context [c, d1, d2, d3]"
  using digit_not_space [of d3] newline_is_space
  by (auto simp: re_context_def)

lemma re_trench_one: "X \<in> set ''A|BCD'' \<Longrightarrow> re_trench [X]"
  by (auto simp: re_trench_def)

lemma check_context_trench_bad:
  assumes "1 < length row"
    and "\<forall>s. row ! 1 = CStr s \<longrightarrow>
           \<not> (\<exists>c d1 d2 d3. strip s = [c, d1, d2, d3] \<and> c \<in> set ''A|BCD''
                \<and> is_digit d1 \<and> is_digit d2 \<and> is_digit d3)"
  shows "snd (check_context_trench row_nr lot_nr row) = Skipped"
proof (cases "row ! 1")
  case (CStr s)
  with assms(2) re_context_strip [of s] have "\<not> re_context (strip s)"
    by blast
  with CStr assms(1) show ?thesis
    by (simp add: check_context_trench_def)
qed (use assms(1) in \<open>simp_all add: check_context_trench_def\<close>)

lemma check_context_trench_ok:
  assumes "2 < length row" and "row ! 1 = CStr s" and "strip s = [c, d1, d2, d3]"
    and "c \<in> set ''A|BCD''" and "is_digit d1" and "is_digit d2" and "is_digit d3"
    and "row ! 2 = CStr t" and "strip t = [X]" and "X \<in> set ''A|BCD''"
  shows "check_context_trench row_nr lot_nr row =
           (if X \<noteq> c
            then log ''Line {row_nr}, lot# {lot_nr}: trench {trench} does not match context.''
                   [CInt (int row_nr), lot_nr, CStr [X]] WARNING
            else [],
            Accepted ([c, d1, d2, d3], [X]))"
  using assms(1-3,8,9) re_context_four [OF assms(4-7)] re_trench_one [OF assms(10)]
  by (simp add: check_context_trench_def Let_def)

lemma read_lot_number_kind:
  "row \<noteq> [] \<Longrightarrow> snd (read_lot_number row_nr row) \<in> {Done, Skipped} \<union> range Accepted"
  by (cases row) (auto simp: read_lot_number_def split: option.splits)

lemma read_sample_number_kind:
  "row \<noteq> [] \<Longrightarrow> snd (read_sample_number row_nr row) \<in> {Done, Skipped} \<union> range Accepted"
  by (cases row) (auto simp: read_sample_number_def split: option.splits cell.splits)

lemma lot_row_bad_context:
  assumes "1 < length row"
    and "\<forall>s. row ! 1 = CStr s \<longrightarrow>
           \<not> (\<exists>c d1 d2 d3. strip s = [c, d1, d2, d3] \<and> c \<in> set ''A|BCD''
                \<and> is_digit d1 \<and> is_digit d2 \<and> is_digit d3)"
  shows "snd (lot_row row_nr row) \<in> {Done, Skipped}"
proof -
  from assms(1) have "row \<noteq> []" by auto
  from read_lot_number_kind [OF this, of row_nr] show ?thesis
    by (cases "snd (read_lot_number row_nr row)")
      (auto simp: lot_row_def then_row_snd check_context_trench_bad [OF assms])
qed

lemma sample_row_bad_context:
  assumes "1 < length row"
    and "\<forall>s. row ! 1 = CStr s \<longrightarrow>
           \<not> (\<exists>c d1 d2 d3. strip s = [c, d1, d2, d3] \<and> c \<in> set ''A|BCD''
                \<and> is_digit d1 \<and> is_digit d2 \<and> is_digit d3)"
  shows "snd (sample_row e row_nr row) \<in> {Done, Skipped}"
proof -
  from assms(1) have "row \<noteq> []" by auto
  from read_sample_number_kind [OF this, of row_nr] show ?thesis
    by (cases "snd (read_sample_number row_nr row)")
      (auto simp: sample_row_def then_row_snd check_context_trench_bad [OF assms]
        case_prod_beta)
qed

lemma artifact_row_bad_context:
  assumes "1 < length row"
    and "\<forall>s. row ! 1 = CStr s \<longrightarrow>
           \<not> (\<exists>c d1 d2 d3. strip s = [c, d1, d2, d3] \<and> c \<in> set ''A|BCD''
                \<and> is_digit d1 \<and> is_digit d2 \<and> is_digit d3)"
  shows "snd (artifact_row e tbl row_nr row) \<in> {Done, Skipped}"
proof -
  from assms(1) have "row \<noteq> []" by auto
  from read_lot_number_kind [OF this, of row_nr] show ?thesis
    by (cases "snd (read_lot_number row_nr row)")
      (auto simp: artifact_row_def then_row_snd check_context_trench_bad [OF assms])
qed

lemma read_type_kind:
  "snd (read_type row_nr lot_nr row) \<noteq> Done" "snd (read_type row_nr lot_nr row) \<noteq> Skipped"
  by (auto simp: read_type_def split: cell.splits)

lemma read_sherd_count_kind:
  "snd (read_sherd_count row_nr lot_nr row t) \<noteq> Done"
  "snd (read_sherd_count row_nr lot_nr row t) \<noteq> Skipped"
  by (auto simp: read_sherd_count_def Let_def split: cell.splits)

lemma sample_description_kind:
  "snd (sample_description e row) \<noteq> Done" "snd (sample_description e row) \<noteq> Skipped"
  by (auto simp: sample_description_def Let_def split: cell.splits)

lemma lot_fields_kind: "snd (lot_fields row_nr row n c t) \<notin> {Done, Skipped}"
proof (cases "snd (read_type row_nr (CInt n) row)")
  case (Accepted ty)
  then show ?thesis
    using read_sherd_count_kind [of row_nr "CInt n" row ty]
    by (cases "snd (read_sherd_count row_nr (CInt n) row ty)")
      (simp_all add: lot_fields_def then_row_snd case_prod_beta)
qed (use read_type_kind [of row_nr "CInt n" row] in \<open>simp_all add: lot_fields_def then_row_snd\<close>)

lemma sample_fields_kind: "snd (sample_fields e row_nr row n k c t) \<notin> {Done, Skipped}"
proof (cases "snd (read_type row_nr (CStr n) row)")
  case (Accepted ty)
  then show ?thesis
    using sample_description_kind [of e row]
    by (cases "snd (sample_description e row)")
      (simp_all add: sample_fields_def then_row_snd case_prod_beta)
qed (use read_type_kind [of row_nr "CStr n" row] in \<open>simp_all add: sample_fields_def then_row_snd\<close>)

lemma after_check_log:
  assumes "snd first = Accepted n" and "check n = (w, res)"
  shows "set w \<subseteq> set (fst (then_row first (\<lambda>x. then_row (check x) (rest x))))"
proof -
  have "set w \<subseteq> set (fst (then_row (check n) (rest n)))"
    using then_row_log(1) [of "check n" "rest n"] assms(2) by simp
  with then_row_log(2) [OF assms(1), of "\<lambda>x. then_row (check x) (rest x)"] show ?thesis
    by blast
qed

lemma lot_row_after_check:
  assumes "snd (read_lot_number row_nr row) = Accepted n"
    and "check_context_trench row_nr (CInt n) row = (w, Accepted (c, t))"
  shows "set w \<subseteq> set (fst (lot_row row_nr row)) \<and> snd (lot_row row_nr row) \<notin> {Done, Skipped}"
proof
  show "set w \<subseteq> set (fst (lot_row row_nr row))"
    unfolding lot_row_def using assms by (rule after_check_log)
  show "snd (lot_row row_nr row) \<notin> {Done, Skipped}"
    using assms lot_fields_kind [of row_nr row n c t]
    by (simp add: lot_row_def then_row_snd)
qed

lemma sample_row_after_check:
  assumes "snd (read_sample_number row_nr row) = Accepted (n, k)"
    and "check_context_trench row_nr (CStr n) row = (w, Accepted (c, t))"
  shows "set w \<subseteq> set (fst (sample_row e row_nr row))
       \<and> snd (sample_row e row_nr row) \<notin> {Done, Skipped}"
proof
  have "set w \<subseteq> set (fst (then_row (read_sample_number row_nr row)
          (\<lambda>x. then_row (check_context_trench row_nr (CStr (fst x)) row)
                 (\<lambda>ct. sample_fields e row_nr row (fst x) (snd x) (fst ct) (snd ct)))))"
    using assms by (intro after_check_log [where n = "(n, k)"]) simp_all
  then show "set w \<subseteq> set (fst (sample_row e row_nr row))"
    by (simp add: sample_row_def split_def)
  show "snd (sample_row e row_nr row) \<notin> {Done, Skipped}"
    using assms sample_fields_kind [of e row_nr row n k c t]
    by (simp add: sample_row_def then_row_snd)
qed

lemma artifact_row_after_check:
  assumes "snd (read_lot_number row_nr row) = Accepted n"
    and "check_context_trench row_nr (CInt n) row = (w, Accepted (c, t))"
  shows "set w \<subseteq> set (fst (artifact_row e tbl row_nr row))
       \<and> snd (artifact_row e tbl row_nr row) = snd (artifact_fields e tbl row_nr row n c)"
proof
  show "set w \<subseteq> set (fst (artifact_row e tbl row_nr row))"
    unfolding artifact_row_def using assms by (rule after_check_log)
  show "snd (artifact_row e tbl row_nr row) = snd (artifact_fields e tbl row_nr row n c)"
    using assms by (simp add: artifact_row_def then_row_snd)
qed

lemma artifact_fields_update:
  "artifact_fields e tbl row_nr (row[2 := v]) n c = artifact_fields e tbl row_nr row n c"
  by (simp add: artifact_fields_def read_type_update read_date_update get_or_update)

text \<open>
  C4, as stated, fails. A context cell with a leading blank does not match the pattern,
  yet the row is accepted, since the cell is stripped first. A row whose context matches
  and whose trench is the letter E, which differs from the context's first character, is
  skipped, and so is one with a mismatching trench B whose lot number is not a number. In
  the Artifacts pass a row with the mismatching trench B is skipped when staging has no
  record for its lot.
\<close>

theorem context_trench_counterexample:
  "\<not> re_context '' A123''
   \<and> snd (lot_row 2 [CInt 5, CStr '' A123'', CStr ''A'', CStr ''ceramic'']) =
        Accepted (example_lot_record\<lparr>photographed := False, count := CNone\<rparr>)
   \<and> snd (lot_row 2 [CInt 5, CStr ''A123'', CStr ''E'', CStr ''ceramic'']) = Skipped
   \<and> snd (lot_row 2 [CStr ''x'', CStr ''A123'', CStr ''B'', CStr ''ceramic'']) = Skipped
   \<and> snd (artifact_row example_env [] 2 [CInt 5, CStr ''A123'', CStr ''B'', CStr ''bead''])
        = Skipped"
  by code_simp

text \<open>
  C4, amended. In each of the three passes, a row whose context cell is not a text, or is
  a text that after stripping is not one of A, B, C, D or the bar followed by exactly three
  digits, is not processed: the pass ends in the skip or, on an empty first cell, in the
  end of the scan. A row whose stripped context is a letter A to D and three digits and
  whose stripped trench is another letter A to D always gets the warning that the trench
  does not match, once its lot or sample number is accepted; the Lots and the Samples pass
  then do not skip it, and the Artifacts pass treats it as it treats the same row with the
  matching trench.
\<close>

theorem context_trench_check:
  "(1 < length row
      \<and> (\<forall>s. row ! 1 = CStr s \<longrightarrow>
             \<not> (\<exists>c d1 d2 d3. strip s = [c, d1, d2, d3] \<and> c \<in> set ''A|BCD''
                  \<and> is_digit d1 \<and> is_digit d2 \<and> is_digit d3))
     \<longrightarrow> snd (lot_row row_nr row) \<in> {Done, Skipped}
         \<and> snd (sample_row e row_nr row) \<in> {Done, Skipped}
         \<and> snd (artifact_row e tbl row_nr row) \<in> {Done, Skipped})
   \<and> (2 < length row \<and> row ! 1 = CStr s \<and> strip s = [c, d1, d2, d3] \<and> c \<in> set ''ABCD''
        \<and> is_digit d1 \<and> is_digit d2 \<and> is_digit d3
        \<and> row ! 2 = CStr t \<and> strip t = [X] \<and> X \<in> set ''ABCD'' \<and> X \<noteq> c
     \<longrightarrow> (\<forall>n. snd (read_lot_number row_nr row) = Accepted n \<longrightarrow>
              (WARNING, ''Line {row_nr}, lot# {lot_nr}: trench {trench} does not match context.'',
                 [CInt (int row_nr), CInt n, CStr [X]]) \<in> set (fst (lot_row row_nr row))
              \<and> snd (lot_row row_nr row) \<notin> {Done, Skipped}
              \<and> (WARNING, ''Line {row_nr}, lot# {lot_nr}: trench {trench} does not match context.'',
                 [CInt (int row_nr), CInt n, CStr [X]]) \<in> set (fst (artifact_row e tbl row_nr row))
              \<and> snd (artifact_row e tbl row_nr row)
                   = snd (artifact_row e tbl row_nr (row[2 := CStr [c]])))
         \<and> (\<forall>n k. snd (read_sample_number row_nr row) = Accepted (n, k) \<longrightarrow>
              (WARNING, ''Line {row_nr}, lot# {lot_nr}: trench {trench} does not match context.'',
                 [CInt (int row_nr), CStr n, CStr [X]]) \<in> set (fst (sample_row e row_nr row))
              \<and> snd (sample_row e row_nr row) \<notin> {Done, Skipped}))"
proof (intro conjI impI allI)
  assume a: "1 < length row
      \<and> (\<forall>s. row ! 1 = CStr s \<longrightarrow>
             \<not> (\<exists>c d1 d2 d3. strip s = [c, d1, d2, d3] \<and> c \<in> set ''A|BCD''
                  \<and> is_digit d1 \<and> is_digit d2 \<and> is_digit d3))"
  then show "snd (lot_row row_nr row) \<in> {Done, Skipped}"
    using lot_row_bad_context by blast
  from a show "snd (sample_row e row_nr row) \<in> {Done, Skipped}"
    using sample_row_bad_context by blast
  from a show "snd (artifact_row e tbl row_nr row) \<in> {Done, Skipped}"
    using artifact_row_bad_context by blast
next
  fix n
  assume h: "2 < length row \<and> row ! 1 = CStr s \<and> strip s = [c, d1, d2, d3] \<and> c \<in> set ''ABCD''
        \<and> is_digit d1 \<and> is_digit d2 \<and> is_digit d3
        \<and> row ! 2 = CStr t \<and> strip t = [X] \<and> X \<in> set ''ABCD'' \<and> X \<noteq> c"
    and r: "snd (read_lot_number row_nr row) = Accepted n"
  let ?w = "(WARNING, ''Line {row_nr}, lot# {lot_nr}: trench {trench} does not match context.'',
                 [CInt (int row_nr), CInt n, CStr [X]])"
  from h have cs: "c \<in> set ''A|BCD''" "X \<in> set ''A|BCD''" "\<not> is_space c"
    by (auto simp: is_space_def)
  from h cs have chk: "check_context_trench row_nr (CInt n) row =
      (log ''Line {row_nr}, lot# {lot_nr}: trench {trench} does not match context.''
         [CInt (int row_nr), CInt n, CStr [X]] WARNING, Accepted ([c, d1, d2, d3], [X]))"
    using check_context_trench_ok [of row s c d1 d2 d3 t X row_nr "CInt n"] by simp
  have w: "?w \<in> set (log ''Line {row_nr}, lot# {lot_nr}: trench {trench} does not match context.''
         [CInt (int row_nr), CInt n, CStr [X]] WARNING)"
    by (simp add: log_def file_log_level_def WARNING_def INFO_def)
  from lot_row_after_check [OF r chk] w
  show "?w \<in> set (fst (lot_row row_nr row))" "snd (lot_row row_nr row) \<notin> {Done, Skipped}"
    by blast+
  from artifact_row_after_check [OF r chk, of e tbl] w
  have art: "?w \<in> set (fst (artifact_row e tbl row_nr row))"
    "snd (artifact_row e tbl row_nr row) = snd (artifact_fields e tbl row_nr row n [c, d1, d2, d3])"
    by blast+
  from art(1) show "?w \<in> set (fst (artifact_row e tbl row_nr row))" .
  let ?row = "row[2 := CStr [c]]"
  have r': "snd (read_lot_number row_nr ?row) = Accepted n"
    using r by (simp add: read_lot_number_update)
  have "strip [c] = [c]"
    using cs(3) by (simp add: strip_def)
  with h cs have chk': "check_context_trench row_nr (CInt n) ?row =
      ([], Accepted ([c, d1, d2, d3], [c]))"
    using check_context_trench_ok [of ?row s c d1 d2 d3 "[c]" c row_nr "CInt n"] by simp
  from artifact_row_after_check [OF r' chk', of e tbl]
  have "snd (artifact_row e tbl row_nr ?row) = snd (artifact_fields e tbl row_nr row n [c, d1, d2, d3])"
    by (simp add: artifact_fields_update)
  with art(2) show "snd (artifact_row e tbl row_nr row) = snd (artifact_row e tbl row_nr ?row)"
    by simp
next
  fix n k
  assume h: "2 < length row \<and> row ! 1 = CStr s \<and> strip s = [c, d1, d2, d3] \<and> c \<in> set ''ABCD''
        \<and> is_digit d1 \<and> is_digit d2 \<and> is_digit d3
        \<and> row ! 2 = CStr t \<and> strip t = [X] \<and> X \<in> set ''ABCD'' \<and> X \<noteq> c"
    and r: "snd (read_sample_number row_nr row) = Accepted (n, k)"
  let ?w = "(WARNING, ''Line {row_nr}, lot# {lot_nr}: trench {trench} does not match context.'',
                 [CInt (int row_nr), CStr n, CStr [X]])"
  from h have cs: "c \<in> set ''A|BCD''" "X \<in> set ''A|BCD''"
    by auto
  from h cs have chk: "check_context_trench row_nr (CStr n) row =
      (log ''Line {row_nr}, lot# {lot_nr}: trench {trench} does not match context.''
         [CInt (int row_nr), CStr n, CStr [X]] WARNING, Accepted ([c, d1, d2, d3], [X]))"
    using check_context_trench_ok [of row s c d1 d2 d3 t X row_nr "CStr n"] by simp
  have w: "?w \<in> set (log ''Line {row_nr}, lot# {lot_nr}: trench {trench} does not match context.''
         [CInt (int row_nr), CStr n, CStr [X]] WARNING)"
    by (simp add: log_def file_log_level_def WARNING_def INFO_def)
  from sample_row_after_check [OF r chk, of e] w
  show "?w \<in> set (fst (sample_row e row_nr row))" "snd (sample_row e row_nr row) \<notin> {Done, Skipped}"
    by blast+
qed

theorem context_trench_check_witness:
  "strip ''X999'' = ''X999''
   \<and> snd (lot_row 2 [CInt 5, CStr ''X999'', CStr ''A'', CStr ''ceramic'']) \<in> {Done, Skipped}
   \<and> strip ''A123'' = ''A123'' \<and> strip ''B'' = ''B''
   \<and> snd (read_lot_number 2 [CInt 5, CStr ''A123'', CStr ''B'', CStr ''ceramic'']) = Accepted 5
   \<and> (WARNING, ''Line {row_nr}, lot# {lot_nr}: trench {trench} does not match context.'',
        [CInt 2, CInt 5, CStr ''B''])
        \<in> set (fst (lot_row 2 [CInt 5, CStr ''A123'', CStr ''B'', CStr ''ceramic'']))
   \<and> snd (lot_row 2 [CInt 5, CStr ''A123'', CStr ''B'', CStr ''ceramic'']) \<notin> {Done, Skipped}
   \<and> snd (artifact_row example_env [example_lot_record] 2
             [CInt 5, CStr ''A123'', CStr ''B'', CStr ''ceramic''])
        = snd (artifact_row example_env [example_lot_record] 2
             ([CInt 5, CStr ''A123'', CStr ''B'', CStr ''ceramic''][2 := CStr ''A'']))
   \<and> snd (read_sample_number 2 [CStr ''S5'', CStr ''A123'', CStr ''B'', CStr ''soil''])
        = Accepted (''S5'', 5)
   \<and> (WARNING, ''Line {row_nr}, lot# {lot_nr}: trench {trench} does not match context.'',
        [CInt 2, CStr ''S5'', CStr ''B''])
        \<in> set (fst (sample_row example_env 2 [CStr ''S5'', CStr ''A123'', CStr ''B'', CStr ''soil'']))
   \<and> snd (sample_row example_env 2 [CStr ''S5'', CStr ''A123'', CStr ''B'', CStr ''soil''])
        \<notin> {Done, Skipped}"
proof -
  let ?row1 = "[CInt 5, CStr ''X999'', CStr ''A'', CStr ''ceramic'']"
  let ?row2 = "[CInt 5, CStr ''A123'', CStr ''B'', CStr ''ceramic'']"
  let ?row3 = "[CStr ''S5'', CStr ''A123'', CStr ''B'', CStr ''soil'']"
  have s: "strip ''X999'' = ''X999''" "strip ''A123'' = ''A123''" "strip ''B'' = ''B''"
    by code_simp+
  have d: "is_digit CHR ''1''" "is_digit CHR ''2''" "is_digit CHR ''3''"
    by (simp_all add: is_digit_def)
  have n: "snd (read_lot_number 2 ?row2) = Accepted 5"
    by code_simp
  have m: "snd (read_sample_number 2 ?row3) = Accepted (''S5'', 5)"
    by code_simp
  have h1: "1 < length ?row1
      \<and> (\<forall>s. ?row1 ! 1 = CStr s \<longrightarrow>
             \<not> (\<exists>c d1 d2 d3. strip s = [c, d1, d2, d3] \<and> c \<in> set ''A|BCD''
                  \<and> is_digit d1 \<and> is_digit d2 \<and> is_digit d3))"
    using s(1) by auto
  have h2: "2 < length ?row2 \<and> ?row2 ! 1 = CStr ''A123''
        \<and> strip ''A123'' = [CHR ''A'', CHR ''1'', CHR ''2'', CHR ''3'']
        \<and> CHR ''A'' \<in> set ''ABCD''
        \<and> is_digit CHR ''1'' \<and> is_digit CHR ''2'' \<and> is_digit CHR ''3''
        \<and> ?row2 ! 2 = CStr ''B'' \<and> strip ''B'' = [CHR ''B''] \<and> CHR ''B'' \<in> set ''ABCD''
        \<and> CHR ''B'' \<noteq> CHR ''A''"
    using s d by simp
  have h3: "2 < length ?row3 \<and> ?row3 ! 1 = CStr ''A123''
        \<and> strip ''A123'' = [CHR ''A'', CHR ''1'', CHR ''2'', CHR ''3'']
        \<and> CHR ''A'' \<in> set ''ABCD''
        \<and> is_digit CHR ''1'' \<and> is_digit CHR ''2'' \<and> is_digit CHR ''3''
        \<and> ?row3 ! 2 = CStr ''B'' \<and> strip ''B'' = [CHR ''B''] \<and> CHR ''B'' \<in> set ''ABCD''
        \<and> CHR ''B'' \<noteq> CHR ''A''"
    using s d by simp
  from context_trench_check [where row = ?row1 and row_nr = 2] h1
  have a: "snd (lot_row 2 ?row1) \<in> {Done, Skipped}"
    by blast
  from context_trench_check [where row = ?row2 and row_nr = 2 and e = example_env
      and tbl = "[example_lot_record]" and s = "''A123''" and c = "CHR ''A''"
      and ?d1.0 = "CHR ''1''" and ?d2.0 = "CHR ''2''" and ?d3.0 = "CHR ''3''"
      and t = "''B''" and X = "CHR ''B''"] h2 n
  have b: "(WARNING, ''Line {row_nr}, lot# {lot_nr}: trench {trench} does not match context.'',
        [CInt 2, CInt 5, CStr ''B'']) \<in> set (fst (lot_row 2 ?row2))"
    "snd (lot_row 2 ?row2) \<notin> {Done, Skipped}"
    "snd (artifact_row example_env [example_lot_record] 2 ?row2)
        = snd (artifact_row example_env [example_lot_record] 2 (?row2[2 := CStr ''A'']))"
    by simp_all
  from context_trench_check [where row = ?row3 and row_nr = 2 and e = example_env
      and s = "''A123''" and c = "CHR ''A''"
      and ?d1.0 = "CHR ''1''" and ?d2.0 = "CHR ''2''" and ?d3.0 = "CHR ''3''"
      and t = "''B''" and X = "CHR ''B''"] h3 m
  have c: "(WARNING, ''Line {row_nr}, lot# {lot_nr}: trench {trench} does not match context.'',
        [CInt 2, CStr ''S5'', CStr ''B''])
        \<in> set (fst (sample_row example_env 2 ?row3))"
    "snd (sample_row example_env 2 ?row3) \<notin> {Done, Skipped}"
    by simp_all
  from s a n b m c show ?thesis
    by simp
qed

end
